theory Spec2Isabelle
  imports Main "HOL-Library.Word"
begin

unbundle bit_operations_syntax

section \<open>Function kinds and the function flag word\<close>

text \<open>
  Modelled from the spec: the enumeration \<open>FunctionKind\<close> and the predicates on it
  (\<open>IsAsyncFunction\<close>, \<open>IsGeneratorFunction\<close>, \<open>IsArrowFunction\<close>, \<open>IsConciseMethod\<close>,
  \<open>IsStatic\<close>, \<open>IsClassConstructor\<close>, \<open>IsDefaultConstructor\<close>, \<open>IsDerivedConstructor\<close>)
  are declared in a header that is not among the sources. Each predicate holds for the
  kinds that carry the trait it names (async, generator, arrow, method, static,
  is-constructor, is-default-constructor, is-derived-constructor).
\<close>

datatype FunctionKind =
    kNormalFunction
  | kModule
  | kAsyncModule
  | kBaseConstructor
  | kDefaultBaseConstructor
  | kDefaultDerivedConstructor
  | kDerivedConstructor
  | kGetterFunction
  | kStaticGetterFunction
  | kSetterFunction
  | kStaticSetterFunction
  | kArrowFunction
  | kAsyncArrowFunction
  | kAsyncFunction
  | kAsyncConciseMethod
  | kStaticAsyncConciseMethod
  | kAsyncConciseGeneratorMethod
  | kStaticAsyncConciseGeneratorMethod
  | kAsyncGeneratorFunction
  | kGeneratorFunction
  | kConciseGeneratorMethod
  | kStaticConciseGeneratorMethod
  | kConciseMethod
  | kStaticConciseMethod
  | kClassMembersInitializerFunction
  | kClassStaticInitializerFunction
  | kInvalid

definition IsAsyncFunction :: "FunctionKind \<Rightarrow> bool" where
  "IsAsyncFunction k = (k \<in> {kAsyncArrowFunction, kAsyncFunction, kAsyncConciseMethod,
     kStaticAsyncConciseMethod, kAsyncConciseGeneratorMethod,
     kStaticAsyncConciseGeneratorMethod, kAsyncGeneratorFunction})"

definition IsGeneratorFunction :: "FunctionKind \<Rightarrow> bool" where
  "IsGeneratorFunction k = (k \<in> {kAsyncConciseGeneratorMethod,
     kStaticAsyncConciseGeneratorMethod, kAsyncGeneratorFunction, kGeneratorFunction,
     kConciseGeneratorMethod, kStaticConciseGeneratorMethod})"

definition IsArrowFunction :: "FunctionKind \<Rightarrow> bool" where
  "IsArrowFunction k = (k \<in> {kArrowFunction, kAsyncArrowFunction})"

definition IsConciseMethod :: "FunctionKind \<Rightarrow> bool" where
  "IsConciseMethod k = (k \<in> {kAsyncConciseMethod, kStaticAsyncConciseMethod,
     kAsyncConciseGeneratorMethod, kStaticAsyncConciseGeneratorMethod,
     kConciseGeneratorMethod, kStaticConciseGeneratorMethod, kConciseMethod,
     kStaticConciseMethod, kClassMembersInitializerFunction,
     kClassStaticInitializerFunction})"

definition IsStatic :: "FunctionKind \<Rightarrow> bool" where
  "IsStatic k = (k \<in> {kStaticGetterFunction, kStaticSetterFunction, kStaticConciseMethod,
     kStaticConciseGeneratorMethod, kStaticAsyncConciseMethod,
     kStaticAsyncConciseGeneratorMethod, kClassStaticInitializerFunction})"

definition IsClassConstructor :: "FunctionKind \<Rightarrow> bool" where
  "IsClassConstructor k = (k \<in> {kBaseConstructor, kDefaultBaseConstructor,
     kDefaultDerivedConstructor, kDerivedConstructor})"

definition IsDefaultConstructor :: "FunctionKind \<Rightarrow> bool" where
  "IsDefaultConstructor k = (k \<in> {kDefaultBaseConstructor, kDefaultDerivedConstructor})"

definition IsDerivedConstructor :: "FunctionKind \<Rightarrow> bool" where
  "IsDerivedConstructor k = (k \<in> {kDefaultDerivedConstructor, kDerivedConstructor})"

text \<open>
  Modelled from the spec: the eight one-bit fields of the flag word are declared in the
  same missing header; they occupy bits 0 to 7 in the order the spec lists the traits.
  A field at position \<open>shift\<close> has \<open>encode\<close>, \<open>decode\<close> and \<open>kMask\<close> as below.
\<close>

type_synonym u32 = "32 word"

definition bf_encode :: "nat \<Rightarrow> bool \<Rightarrow> u32" where
  "bf_encode shift b = push_bit shift (if b then 1 else 0)"

definition bf_decode :: "nat \<Rightarrow> u32 \<Rightarrow> bool" where
  "bf_decode shift w = (drop_bit shift w AND 1 = 1)"

definition bf_kMask :: "nat \<Rightarrow> u32" where
  "bf_kMask shift = push_bit shift 1"

definition AsyncFunctionBitField :: nat where "AsyncFunctionBitField = 0"
definition GeneratorFunctionBitField :: nat where "GeneratorFunctionBitField = 1"
definition ArrowFunctionBitField :: nat where "ArrowFunctionBitField = 2"
definition MethodBitField :: nat where "MethodBitField = 3"
definition StaticBitField :: nat where "StaticBitField = 4"
definition ClassConstructorBitField :: nat where "ClassConstructorBitField = 5"
definition DefaultConstructorBitField :: nat where "DefaultConstructorBitField = 6"
definition DerivedConstructorBitField :: nat where "DerivedConstructorBitField = 7"

subsection \<open>The error slot shared by serializer and deserializer\<close>

text \<open>
  \<open>WebSnapshotSerializerDeserializer::Throw\<close> keeps the first message only. Raising the
  exception on the isolate is the host's business and is left out.
\<close>

record base_state =
  error_message :: "string option"

definition has_error :: "'a base_state_scheme \<Rightarrow> bool" where
  "has_error s = (error_message s \<noteq> None)"

definition base_Throw :: "string \<Rightarrow> 'a base_state_scheme \<Rightarrow> 'a base_state_scheme" where
  "base_Throw message s =
     (if error_message s \<noteq> None then s else s\<lparr>error_message := Some message\<rparr>)"

text \<open>The kinds listed before \<open>break\<close> in the switch of \<open>FunctionKindToFunctionFlags\<close>.\<close>

definition supported_kinds :: "FunctionKind list" where
  "supported_kinds = [kNormalFunction, kArrowFunction, kGeneratorFunction,
     kAsyncFunction, kAsyncArrowFunction, kAsyncGeneratorFunction, kBaseConstructor,
     kDefaultBaseConstructor, kConciseMethod, kAsyncConciseMethod]"

definition supported_kind :: "FunctionKind \<Rightarrow> bool" where
  "supported_kind k = (k \<in> set supported_kinds)"

definition kind_flags :: "FunctionKind \<Rightarrow> u32" where
  "kind_flags k =
     bf_encode AsyncFunctionBitField (IsAsyncFunction k) OR
     bf_encode GeneratorFunctionBitField (IsGeneratorFunction k) OR
     bf_encode ArrowFunctionBitField (IsArrowFunction k) OR
     bf_encode MethodBitField (IsConciseMethod k) OR
     bf_encode StaticBitField (IsStatic k) OR
     bf_encode ClassConstructorBitField (IsClassConstructor k) OR
     bf_encode DefaultConstructorBitField (IsDefaultConstructor k) OR
     bf_encode DerivedConstructorBitField (IsDerivedConstructor k)"

definition FunctionKindToFunctionFlags ::
  "FunctionKind \<Rightarrow> 'a base_state_scheme \<Rightarrow> u32 \<times> 'a base_state_scheme" where
  "FunctionKindToFunctionFlags k s =
     (let s1 = (if supported_kind k then s else base_Throw ''Unsupported function kind'' s)
      in (kind_flags k, s1))"

definition IsFunctionOrMethod :: "u32 \<Rightarrow> bool" where
  "IsFunctionOrMethod flags =
     (let mask = bf_kMask AsyncFunctionBitField OR bf_kMask GeneratorFunctionBitField OR
                 bf_kMask ArrowFunctionBitField OR bf_kMask MethodBitField OR
                 bf_kMask StaticBitField
      in flags AND mask = flags)"

definition IsConstructor :: "u32 \<Rightarrow> bool" where
  "IsConstructor flags =
     (let mask = bf_kMask ClassConstructorBitField OR bf_kMask DefaultConstructorBitField OR
                 bf_kMask DerivedConstructorBitField
      in bf_decode ClassConstructorBitField flags \<and> flags AND mask = flags)"

definition kFunctionKinds_function :: "FunctionKind list" where
  "kFunctionKinds_function =
     [kNormalFunction, kAsyncFunction, kGeneratorFunction, kAsyncGeneratorFunction,
      kArrowFunction, kAsyncArrowFunction, kInvalid, kInvalid,
      kConciseMethod, kAsyncConciseMethod, kInvalid, kInvalid,
      kInvalid, kInvalid, kInvalid, kInvalid]"

definition kFunctionKinds_constructor :: "FunctionKind list" where
  "kFunctionKinds_constructor =
     [kBaseConstructor, kDefaultBaseConstructor,
      kDerivedConstructor, kDefaultDerivedConstructor]"

definition b2w :: "bool \<Rightarrow> u32" where
  "b2w b = (if b then 1 else 0)"

definition flags_kind :: "u32 \<Rightarrow> FunctionKind" where
  "flags_kind flags =
     (if IsFunctionOrMethod flags then
        (if bf_decode ArrowFunctionBitField flags \<and> bf_decode MethodBitField flags
         then kInvalid
         else
           (let index = push_bit 0 (b2w (bf_decode AsyncFunctionBitField flags)) OR
                        push_bit 1 (b2w (bf_decode GeneratorFunctionBitField flags)) OR
                        push_bit 2 (b2w (bf_decode ArrowFunctionBitField flags \<or>
                                         bf_decode StaticBitField flags)) OR
                        push_bit 3 (b2w (bf_decode MethodBitField flags))
            in kFunctionKinds_function ! unat index))
      else if IsConstructor flags then
        kFunctionKinds_constructor ! unat (drop_bit DefaultConstructorBitField flags)
      else kInvalid)"

text \<open>
  \<open>FunctionFlagsToFunctionKind\<close> is a member of the common base class and calls
  \<open>Throw\<close> from there: the base class's \<open>Throw\<close>, which records the message only.
\<close>

definition FunctionFlagsToFunctionKind ::
  "u32 \<Rightarrow> 'a base_state_scheme \<Rightarrow> FunctionKind \<times> 'a base_state_scheme" where
  "FunctionFlagsToFunctionKind flags s =
     (let kind = flags_kind flags
      in (kind, if kind = kInvalid
                then base_Throw (''Invalid function flags'' @ [CHR 0x0A]) s else s))"

text \<open>The flag words that \<open>FunctionFlagsToFunctionKind\<close> decodes without an error.\<close>

definition accepted_flags :: "u32 list" where
  "accepted_flags = [0, 1, 2, 3, 4, 5, 8, 9, 16, 17, 20, 21, 32, 96, 160, 224]"

section \<open>The binary codec\<close>

text \<open>
  Modelled from the spec: the byte-level writer and reader (\<open>ValueSerializer\<close>,
  \<open>ValueDeserializer\<close>) are not among the sources. Following the spec's layout, a plain
  integer is 32 bits wide and little-endian, a zigzag integer is a variable-length
  sign-folded integer (seven payload bits per byte, the top bit of a byte announcing
  another byte), a double is eight bytes, and a string is a 32-bit length followed by
  that many bytes. Growing the output buffer never fails here.
\<close>

type_synonym byte = "8 word"

definition WriteUint32 :: "u32 \<Rightarrow> byte list" where
  "WriteUint32 w = [ucast w, ucast (drop_bit 8 w), ucast (drop_bit 16 w), ucast (drop_bit 24 w)]"

fun ReadUint32 :: "byte list \<Rightarrow> (u32 \<times> byte list) option" where
  "ReadUint32 (b0 # b1 # b2 # b3 # rest) =
     Some (ucast b0 OR push_bit 8 (ucast b1) OR push_bit 16 (ucast b2) OR
           push_bit 24 (ucast b3), rest)"
| "ReadUint32 _ = None"

function WriteVarint :: "nat \<Rightarrow> byte list" where
  "WriteVarint n = (if n < 128 then [of_nat n]
                    else of_nat (n mod 128 + 128) # WriteVarint (n div 128))"
  by pat_completeness auto
termination
  by (relation "measure id") auto

definition WriteZigZag :: "u32 \<Rightarrow> byte list" where
  "WriteZigZag v = WriteVarint (unat (push_bit 1 v XOR signed_drop_bit 31 v))"

fun ReadVarint :: "byte list \<Rightarrow> u32 \<Rightarrow> nat \<Rightarrow> (u32 \<times> byte list) option" where
  "ReadVarint [] v shift = None"
| "ReadVarint (b # bs) v shift =
     (let v' = (if shift < 32 then v OR push_bit shift (ucast (b AND 0x7F)) else v);
          shift' = (if shift < 32 then shift + 7 else shift)
      in if b AND 0x80 \<noteq> 0 then ReadVarint bs v' shift' else Some (v', bs))"

definition ReadZigZag :: "byte list \<Rightarrow> (u32 \<times> byte list) option" where
  "ReadZigZag bs =
     (case ReadVarint bs 0 0 of
        None \<Rightarrow> None
      | Some (u, rest) \<Rightarrow> Some (drop_bit 1 u XOR (- (u AND 1)), rest))"

definition WriteDouble :: "64 word \<Rightarrow> byte list" where
  "WriteDouble d = map (\<lambda>i. ucast (drop_bit (8 * i) d)) [0..<8]"

definition ReadRawBytes :: "nat \<Rightarrow> byte list \<Rightarrow> (byte list \<times> byte list) option" where
  "ReadRawBytes n bs = (if n \<le> length bs then Some (take n bs, drop n bs) else None)"

definition double_of_bytes :: "byte list \<Rightarrow> 64 word" where
  "double_of_bytes bs = foldr (\<lambda>b acc. push_bit 8 acc OR ucast b) bs 0"

definition ReadDouble :: "byte list \<Rightarrow> (64 word \<times> byte list) option" where
  "ReadDouble bs =
     (case ReadRawBytes 8 bs of
        None \<Rightarrow> None
      | Some (raw, rest) \<Rightarrow> Some (double_of_bytes raw, rest))"

definition ReadUtf8String :: "byte list \<Rightarrow> (byte list \<times> byte list) option" where
  "ReadUtf8String bs =
     (case ReadUint32 bs of
        None \<Rightarrow> None
      | Some (n, rest) \<Rightarrow> ReadRawBytes (unat n) rest)"

text \<open>
  Modelled from the spec: the format constants are declared in the missing header. The
  value tags are numbered in the order in which \<open>ReadValue\<close> lists them; the shape modes
  and the context kinds carry the numbers the spec gives them; the magic number is four
  fixed bytes.
\<close>

datatype ValueType =
    FALSE_CONSTANT | TRUE_CONSTANT | NULL_CONSTANT | UNDEFINED_CONSTANT
  | INTEGER | DOUBLE | STRING_ID | ARRAY_ID | OBJECT_ID | FUNCTION_ID | CLASS_ID | REGEXP

fun ValueType_code :: "ValueType \<Rightarrow> u32" where
  "ValueType_code FALSE_CONSTANT = 0"
| "ValueType_code TRUE_CONSTANT = 1"
| "ValueType_code NULL_CONSTANT = 2"
| "ValueType_code UNDEFINED_CONSTANT = 3"
| "ValueType_code INTEGER = 4"
| "ValueType_code DOUBLE = 5"
| "ValueType_code STRING_ID = 6"
| "ValueType_code ARRAY_ID = 7"
| "ValueType_code OBJECT_ID = 8"
| "ValueType_code FUNCTION_ID = 9"
| "ValueType_code CLASS_ID = 10"
| "ValueType_code REGEXP = 11"

definition ValueType_of_code :: "u32 \<Rightarrow> ValueType option" where
  "ValueType_of_code w =
     (if w = 0 then Some FALSE_CONSTANT else if w = 1 then Some TRUE_CONSTANT
      else if w = 2 then Some NULL_CONSTANT else if w = 3 then Some UNDEFINED_CONSTANT
      else if w = 4 then Some INTEGER else if w = 5 then Some DOUBLE
      else if w = 6 then Some STRING_ID else if w = 7 then Some ARRAY_ID
      else if w = 8 then Some OBJECT_ID else if w = 9 then Some FUNCTION_ID
      else if w = 10 then Some CLASS_ID else if w = 11 then Some REGEXP else None)"

definition PropertyAttributesType_DEFAULT :: u32 where "PropertyAttributesType_DEFAULT = 0"
definition PropertyAttributesType_CUSTOM :: u32 where "PropertyAttributesType_CUSTOM = 1"
definition ContextType_FUNCTION :: u32 where "ContextType_FUNCTION = 0"
definition ContextType_BLOCK :: u32 where "ContextType_BLOCK = 1"

definition kMagicNumber :: "byte list" where
  "kMagicNumber = [0x2B, 0x2B, 0x2B, 0x3B]"

definition ReadOnlyBitField :: nat where "ReadOnlyBitField = 0"
definition ConfigurableBitField :: nat where "ConfigurableBitField = 1"
definition EnumerableBitField :: nat where "EnumerableBitField = 2"

definition GetDefaultAttributeFlags :: u32 where
  "GetDefaultAttributeFlags =
     bf_encode ReadOnlyBitField False OR bf_encode ConfigurableBitField True OR
     bf_encode EnumerableBitField True"

section \<open>The heap the serializer reads\<close>

text \<open>
  A tagged value is a small integer or a pointer to a heap object; the identity of a heap
  object is its address. Maps and contexts are carried by the objects that point to them
  and have an identity number of their own. The parent link of a context is fixed when
  the context is created, so a context carries its parent chain.
\<close>

datatype Object = Smi u32 | HeapPtr nat

datatype OddballKind = kFalse | kTrue | kNull | kUndefined | kOtherOddball

record PropertyDetails =
  location_is_kField :: bool
  IsReadOnly :: bool
  IsConfigurable :: bool
  IsEnumerable :: bool

record Descriptor =
  GetKey :: Object
  GetDetails :: PropertyDetails

record Map =
  map_identity :: nat
  own_descriptors :: "Descriptor list"
  map_prototype :: Object

datatype ContextKind = FunctionContextKind | BlockContextKind | OtherContextKind

datatype Context =
    NativeContext
  | ScriptContext
  | InnerContext nat ContextKind Context "(Object \<times> Object) list"

fun IsFunctionContext :: "Context \<Rightarrow> bool" where
  "IsFunctionContext (InnerContext a FunctionContextKind p ls) = True"
| "IsFunctionContext _ = False"

fun IsBlockContext :: "Context \<Rightarrow> bool" where
  "IsBlockContext (InnerContext a BlockContextKind p ls) = True"
| "IsBlockContext _ = False"

fun IsNativeContext :: "Context \<Rightarrow> bool" where
  "IsNativeContext NativeContext = True"
| "IsNativeContext _ = False"

fun IsScriptContext :: "Context \<Rightarrow> bool" where
  "IsScriptContext ScriptContext = True"
| "IsScriptContext _ = False"

text \<open>The (name, value) pairs of the context-allocated locals, in slot order.\<close>

fun context_locals :: "Context \<Rightarrow> (Object \<times> Object) list" where
  "context_locals (InnerContext a k p ls) = ls"
| "context_locals _ = []"

record SharedFunctionInfo =
  HasSourceCode :: bool
  StartPosition :: int
  EndPosition :: int
  formal_parameter_count :: u32
  function_kind :: FunctionKind
  script_source :: Object

record JSFunctionFields =
  shared :: SharedFunctionInfo
  function_context :: Context
  has_prototype_slot :: bool
  has_non_instance_prototype :: bool
  has_instance_prototype :: bool
  instance_prototype :: Object

record JSObjectFields =
  object_map :: Map
  HasFastProperties :: bool
  property_values :: "Object list"

datatype ElementsKind = PACKED_SMI_ELEMENTS | PACKED_ELEMENTS | OTHER_ELEMENTS

record JSArrayFields =
  GetElementsKind :: ElementsKind
  array_elements :: "Object list"

record JSRegExpFields =
  has_initial_regexp_map :: bool
  regexp_source :: Object
  regexp_flags_string :: "16 word list"

datatype HeapObject =
    Oddball OddballKind
  | HeapNumber "64 word"
  | JSFunction JSFunctionFields
  | JSClassConstructor JSFunctionFields
  | JSObject JSObjectFields
  | JSArray JSArrayFields
  | JSPrimitiveWrapper Object
  | JSRegExp JSRegExpFields
  | JSString bool "16 word list"
  | OtherHeapObject

text \<open>
  \<open>JSString one_byte cs\<close> is a flat string with code units \<open>cs\<close> in the one-byte or the
  two-byte representation. A heap is the list of its objects; an address beyond it holds
  an object of no kind known to the serializer.
\<close>

definition heap_at :: "HeapObject list \<Rightarrow> nat \<Rightarrow> HeapObject" where
  "heap_at h a = (if a < length h then h ! a else OtherHeapObject)"

fun IsString :: "HeapObject list \<Rightarrow> Object \<Rightarrow> bool" where
  "IsString h (HeapPtr a) = (case heap_at h a of JSString ob cs \<Rightarrow> True | _ \<Rightarrow> False)"
| "IsString h (Smi v) = False"

fun IsJSObject :: "HeapObject list \<Rightarrow> Object \<Rightarrow> bool" where
  "IsJSObject h (HeapPtr a) =
     (case heap_at h a of
        JSFunction f \<Rightarrow> True | JSClassConstructor f \<Rightarrow> True | JSObject ob \<Rightarrow> True
      | JSArray ar \<Rightarrow> True | JSPrimitiveWrapper v \<Rightarrow> True | JSRegExp r \<Rightarrow> True
      | _ \<Rightarrow> False)"
| "IsJSObject h (Smi v) = False"

text \<open>
  Modelled from the spec: the UTF-8 rendering of a two-byte string (\<open>Utf8Length\<close> and
  \<open>WriteUtf8\<close> of the embedder interface, not among the sources).
\<close>

fun utf16_code_points :: "16 word list \<Rightarrow> nat list" where
  "utf16_code_points (c # d # cs) =
     (if 0xD800 \<le> c \<and> c < 0xDC00 \<and> 0xDC00 \<le> d \<and> d < 0xE000
      then (0x10000 + (unat c - 0xD800) * 1024 + (unat d - 0xDC00)) # utf16_code_points cs
      else unat c # utf16_code_points (d # cs))"
| "utf16_code_points [c] = [unat c]"
| "utf16_code_points [] = []"

definition utf8_of_code_point :: "nat \<Rightarrow> byte list" where
  "utf8_of_code_point c =
     (if c < 0x80 then [of_nat c]
      else if c < 0x800 then [of_nat (0xC0 + c div 64), of_nat (0x80 + c mod 64)]
      else if c < 0x10000 then
        [of_nat (0xE0 + c div 4096), of_nat (0x80 + (c div 64) mod 64), of_nat (0x80 + c mod 64)]
      else
        [of_nat (0xF0 + c div 262144), of_nat (0x80 + (c div 4096) mod 64),
         of_nat (0x80 + (c div 64) mod 64), of_nat (0x80 + c mod 64)])"

definition WriteUtf8 :: "16 word list \<Rightarrow> byte list" where
  "WriteUtf8 cs = concat (map utf8_of_code_point (utf16_code_points cs))"


section \<open>The serializer\<close>

text \<open>
  What the serializer needs from the isolate: the object that maps use as default
  prototype, and the longest string the factory builds.
\<close>

record isolate =
  initial_object_prototype :: Object
  String_kMaxLength :: nat

text \<open>
  The identity maps (\<open>ObjectCacheIndexMap\<close>) hand out dense ids in insertion order: a
  map is the list of its keys, the id of a key its position. The \<open>ArrayList\<close>s
  \<open>contexts_\<close>, \<open>functions_\<close>, \<open>classes_\<close>, \<open>arrays_\<close> and \<open>objects_\<close> are the fields
  \<open>contexts_list\<close> to \<open>objects_list\<close>. The eight
  \<open>ValueSerializer\<close>s are the byte strings written so far. \<open>unreachable_hit\<close> records that
  an \<open>UNREACHABLE()\<close> was executed, which aborts the process; the state after it carries
  no meaning.
\<close>

record serializer = base_state +
  heap :: "HeapObject list"
  string_serializer :: "byte list"
  map_serializer :: "byte list"
  context_serializer :: "byte list"
  function_serializer :: "byte list"
  class_serializer :: "byte list"
  array_serializer :: "byte list"
  object_serializer :: "byte list"
  export_serializer :: "byte list"
  string_ids :: "Object list"
  map_ids :: "Map list"
  context_ids :: "Context list"
  function_ids :: "Object list"
  class_ids :: "Object list"
  array_ids :: "Object list"
  object_ids :: "Object list"
  contexts_list :: "Context list"
  functions_list :: "Object list"
  classes_list :: "Object list"
  arrays_list :: "Object list"
  objects_list :: "Object list"
  discovery_queue :: "Object list"
  source_intervals :: "(int \<times> int) list"
  full_source :: "Object option"
  source_offset_to_compacted_source_offset :: "int \<Rightarrow> int"
  source_id :: u32
  export_count :: u32
  unreachable_hit :: bool

definition new_serializer :: "HeapObject list \<Rightarrow> serializer" where
  "new_serializer h =
     \<lparr>error_message = None, heap = h,
      string_serializer = [], map_serializer = [], context_serializer = [],
      function_serializer = [], class_serializer = [], array_serializer = [],
      object_serializer = [], export_serializer = [],
      string_ids = [], map_ids = [], context_ids = [], function_ids = [], class_ids = [],
      array_ids = [], object_ids = [],
      contexts_list = [], functions_list = [], classes_list = [], arrays_list = [],
      objects_list = [],
      discovery_queue = [], source_intervals = [], full_source = None,
      source_offset_to_compacted_source_offset = (\<lambda>_. 0),
      source_id = 0, export_count = 0, unreachable_hit = False\<rparr>"

datatype Sink = ContextSink | FunctionSink | ClassSink | ArraySink | ObjectSink | ExportSink

fun emit :: "Sink \<Rightarrow> byte list \<Rightarrow> serializer \<Rightarrow> serializer" where
  "emit ContextSink bs s = s\<lparr>context_serializer := context_serializer s @ bs\<rparr>"
| "emit FunctionSink bs s = s\<lparr>function_serializer := function_serializer s @ bs\<rparr>"
| "emit ClassSink bs s = s\<lparr>class_serializer := class_serializer s @ bs\<rparr>"
| "emit ArraySink bs s = s\<lparr>array_serializer := array_serializer s @ bs\<rparr>"
| "emit ObjectSink bs s = s\<lparr>object_serializer := object_serializer s @ bs\<rparr>"
| "emit ExportSink bs s = s\<lparr>export_serializer := export_serializer s @ bs\<rparr>"

fun index_of :: "'k list \<Rightarrow> 'k \<Rightarrow> nat option" where
  "index_of [] k = None"
| "index_of (x # xs) k = (if x = k then Some 0 else map_option Suc (index_of xs k))"

text \<open>
  \<open>InsertIntoIndexMap\<close> returns whether the key was there already, the id (left as the
  caller had it when the map is full), and the map.
\<close>

definition InsertIntoIndexMap ::
  "'k list \<Rightarrow> 'k \<Rightarrow> u32 \<Rightarrow> 'a base_state_scheme
   \<Rightarrow> bool \<times> u32 \<times> 'k list \<times> 'a base_state_scheme" where
  "InsertIntoIndexMap m object id0 s =
     (if (of_nat (length m) :: u32) \<ge> 0xFFFFFFFF
      then (True, id0, m, base_Throw ''Too many objects'' s)
      else (case index_of m object of
              Some i \<Rightarrow> (True, of_nat i, m, s)
            | None \<Rightarrow> (False, of_nat (length m), m @ [object], s)))"

text \<open>
  The \<open>Get...Id\<close> lookups assert that the key is present; where it is not, the release
  build returns an uninitialised local, which the model reads as 0.
\<close>

definition lookup_id :: "'k list \<Rightarrow> 'k \<Rightarrow> u32" where
  "lookup_id m k = (case index_of m k of Some i \<Rightarrow> of_nat i | None \<Rightarrow> 0)"

definition GetFunctionId :: "serializer \<Rightarrow> Object \<Rightarrow> u32" where
  "GetFunctionId s f = lookup_id (function_ids s) f"

definition GetClassId :: "serializer \<Rightarrow> Object \<Rightarrow> u32" where
  "GetClassId s f = lookup_id (class_ids s) f"

definition GetContextId :: "serializer \<Rightarrow> Context \<Rightarrow> u32" where
  "GetContextId s c = lookup_id (context_ids s) c"

definition GetArrayId :: "serializer \<Rightarrow> Object \<Rightarrow> u32" where
  "GetArrayId s a = lookup_id (array_ids s) a"

definition GetObjectId :: "serializer \<Rightarrow> Object \<Rightarrow> u32" where
  "GetObjectId s ob = lookup_id (object_ids s) ob"

definition AttributesToFlags :: "PropertyDetails \<Rightarrow> u32" where
  "AttributesToFlags details =
     bf_encode ReadOnlyBitField (IsReadOnly details) OR
     bf_encode ConfigurableBitField (IsConfigurable details) OR
     bf_encode EnumerableBitField (IsEnumerable details)"

text \<open>The bytes \<open>SerializeString\<close> writes for a flat string, of either representation.\<close>

fun string_bytes :: "HeapObject list \<Rightarrow> Object \<Rightarrow> byte list option" where
  "string_bytes h (HeapPtr a) =
     (case heap_at h a of
        JSString one_byte cs \<Rightarrow> Some (if one_byte then map ucast cs else WriteUtf8 cs)
      | _ \<Rightarrow> None)"
| "string_bytes h (Smi v) = None"

definition SerializeString :: "Object \<Rightarrow> u32 \<Rightarrow> serializer \<Rightarrow> u32 \<times> serializer" where
  "SerializeString string id0 s =
     (case InsertIntoIndexMap (string_ids s) string id0 s of
        (found, id', ids', s1) \<Rightarrow>
          (let s2 = s1\<lparr>string_ids := ids'\<rparr>
           in if found then (id', s2)
              else (case string_bytes (heap s2) string of
                      Some bs \<Rightarrow>
                        (id', s2\<lparr>string_serializer :=
                                  string_serializer s2 @ WriteUint32 (of_nat (length bs)) @ bs\<rparr>)
                    | None \<Rightarrow> (id', s2\<lparr>unreachable_hit := True\<rparr>))))"

text \<open>
  The first loop of \<open>SerializeMap\<close>, over the own descriptors in index order; \<open>None\<close> is
  the early return after \<open>Throw\<close>.
\<close>

fun SerializeMap_descriptors ::
  "Descriptor list \<Rightarrow> int \<Rightarrow> int \<Rightarrow> u32 list \<Rightarrow> u32 list \<Rightarrow> serializer
   \<Rightarrow> (int \<times> u32 list \<times> u32 list) option \<times> serializer" where
  "SerializeMap_descriptors [] i first_custom_index ids attributes s =
     (Some (first_custom_index, ids, attributes), s)"
| "SerializeMap_descriptors (d # ds) i first_custom_index ids attributes s =
     (if \<not> IsString (heap s) (GetKey d) then (None, base_Throw ''Key is not a string'' s)
      else if \<not> location_is_kField (GetDetails d)
      then (None, base_Throw ''Properties which are not fields not supported'' s)
      else
        (let details = GetDetails d;
             custom = (first_custom_index \<ge> 0 \<or> IsReadOnly details \<or>
                       \<not> IsConfigurable details \<or> \<not> IsEnumerable details);
             first_custom_index' =
               (if custom \<and> first_custom_index = -1 then i else first_custom_index);
             attributes' =
               (if custom then attributes @ [AttributesToFlags details] else attributes)
         in case SerializeString (GetKey d) 0 s of
              (string_id, s1) \<Rightarrow>
                SerializeMap_descriptors ds (i + 1) first_custom_index' (ids @ [string_id])
                  attributes' s1))"

definition SerializeMap_properties :: "int \<Rightarrow> u32 list \<Rightarrow> u32 list \<Rightarrow> byte list" where
  "SerializeMap_properties first_custom_index ids attributes =
     WriteUint32 (of_nat (length ids)) @
     concat (map (\<lambda>i.
       (if first_custom_index \<ge> 0
        then (if int i < first_custom_index then WriteUint32 GetDefaultAttributeFlags
              else WriteUint32 (attributes ! (i - nat first_custom_index)))
        else []) @ WriteUint32 (ids ! i)) [0..<length ids])"

definition SerializeMap :: "isolate \<Rightarrow> Map \<Rightarrow> u32 \<Rightarrow> serializer \<Rightarrow> u32 \<times> serializer" where
  "SerializeMap I m id0 s =
     (case InsertIntoIndexMap (map_ids s) m id0 s of
        (found, id', ids', s1) \<Rightarrow>
          (let s2 = s1\<lparr>map_ids := ids'\<rparr>
           in if found then (id', s2)
              else
                (case SerializeMap_descriptors (own_descriptors m) 0 (-1) [] [] s2 of
                   (None, s3) \<Rightarrow> (id', s3)
                 | (Some (first_custom_index, ids, attributes), s3) \<Rightarrow>
                     (let s4 = s3\<lparr>map_serializer := map_serializer s3 @
                                 WriteUint32 (if first_custom_index = -1
                                              then PropertyAttributesType_DEFAULT
                                              else PropertyAttributesType_CUSTOM)\<rparr>
                      in if map_prototype m = initial_object_prototype I
                         then (id', s4\<lparr>map_serializer := map_serializer s4 @ WriteUint32 0 @
                                 SerializeMap_properties first_custom_index ids attributes\<rparr>)
                         else if \<not> IsJSObject (heap s4) (map_prototype m)
                         then (id', base_Throw ''Non-JSObject __proto__s not supported'' s4)
                         else (id', s4\<lparr>map_serializer := map_serializer s4 @
                                 WriteUint32 (GetObjectId s4 (map_prototype m) + 1) @
                                 SerializeMap_properties first_custom_index ids
                                   attributes\<rparr>)))))"

subsection \<open>Source compaction\<close>

text \<open>
  Modelled from the spec: the factory's string construction is not among the sources.
  \<open>NewSubString\<close> gives the code units from \<open>begin\<close> up to \<open>end\<close>; \<open>NewConsString\<close>
  concatenates and fails when the result is longer than \<open>String::kMaxLength\<close>. The
  compacted source is kept by its code units while it grows and becomes a fresh heap
  string when it is serialized.
\<close>

definition NewSubString :: "16 word list \<Rightarrow> int \<Rightarrow> int \<Rightarrow> 16 word list" where
  "NewSubString cs begin_pos end_pos = take (nat (end_pos - begin_pos)) (drop (nat begin_pos) cs)"

definition NewConsString :: "isolate \<Rightarrow> 16 word list \<Rightarrow> 16 word list \<Rightarrow> 16 word list option" where
  "NewConsString I left right =
     (if length left + length right > String_kMaxLength I then None else Some (left @ right))"

record source_compaction =
  source_string :: "16 word list"
  current_interval_start :: int
  current_interval_end :: int
  offsets :: "int \<Rightarrow> int"

text \<open>One iteration of the loop of \<open>SerializeSource\<close>; \<open>False\<close> is the return after \<open>Throw\<close>.\<close>

definition SerializeSource_step ::
  "isolate \<Rightarrow> 16 word list \<Rightarrow> int \<times> int \<Rightarrow> source_compaction \<Rightarrow> bool \<times> source_compaction" where
  "SerializeSource_step I full interval c =
     (if snd interval \<le> current_interval_end c then
        (let offset_within_parent = fst interval - current_interval_start c
         in (True, c\<lparr>offsets := (offsets c)(fst interval :=
                        offsets c (current_interval_start c) + offset_within_parent)\<rparr>))
      else
        (let c1 = c\<lparr>current_interval_start := fst interval,
                     current_interval_end := snd interval,
                     offsets := (offsets c)(fst interval := int (length (source_string c)))\<rparr>
         in case NewConsString I (source_string c1)
                   (NewSubString full (current_interval_start c1) (current_interval_end c1)) of
              None \<Rightarrow> (False, c1)
            | Some new_source_string \<Rightarrow> (True, c1\<lparr>source_string := new_source_string\<rparr>)))"

fun SerializeSource_loop ::
  "isolate \<Rightarrow> 16 word list \<Rightarrow> (int \<times> int) list \<Rightarrow> source_compaction
   \<Rightarrow> bool \<times> source_compaction" where
  "SerializeSource_loop I full [] c = (True, c)"
| "SerializeSource_loop I full (interval # rest) c =
     (case SerializeSource_step I full interval c of
        (False, c1) \<Rightarrow> (False, c1)
      | (True, c1) \<Rightarrow> SerializeSource_loop I full rest c1)"

fun string_chars :: "HeapObject list \<Rightarrow> Object option \<Rightarrow> bool \<times> 16 word list" where
  "string_chars h (Some (HeapPtr a)) =
     (case heap_at h a of JSString one_byte cs \<Rightarrow> (one_byte, cs) | _ \<Rightarrow> (True, []))"
| "string_chars h _ = (True, [])"

definition SerializeSource :: "isolate \<Rightarrow> serializer \<Rightarrow> serializer" where
  "SerializeSource I s =
     (if source_intervals s = [] then s
      else
        (case string_chars (heap s) (full_source s) of
           (one_byte, full) \<Rightarrow>
             (case SerializeSource_loop I full (source_intervals s)
                     \<lparr>source_string = [], current_interval_start = 0,
                      current_interval_end = 0,
                      offsets = source_offset_to_compacted_source_offset s\<rparr> of
                (ok, c) \<Rightarrow>
                  (let s1 = s\<lparr>source_offset_to_compacted_source_offset := offsets c\<rparr>
                   in if \<not> ok then base_Throw ''Cannot construct source string'' s1
                      else
                        (let address = length (heap s1);
                             s2 = s1\<lparr>heap := heap s1 @
                                    [JSString (one_byte \<or> source_string c = [])
                                       (source_string c)]\<rparr>
                         in case SerializeString (HeapPtr address) (source_id s2) s2 of
                              (id', s3) \<Rightarrow> s3\<lparr>source_id := id'\<rparr>)))))"


subsection \<open>Discovery\<close>

text \<open>
  Modelled from the spec: \<open>source_intervals_\<close> is declared in the missing header; it is the
  set of the recorded (start, end) pairs, iterated in ascending order.
\<close>

fun emplace_interval :: "int \<times> int \<Rightarrow> (int \<times> int) list \<Rightarrow> (int \<times> int) list" where
  "emplace_interval p [] = [p]"
| "emplace_interval p (q # qs) =
     (if p = q then q # qs
      else if fst p < fst q \<or> (fst p = fst q \<and> snd p < snd q) then p # q # qs
      else q # emplace_interval p qs)"

definition DiscoverSource :: "JSFunctionFields \<Rightarrow> serializer \<Rightarrow> serializer" where
  "DiscoverSource f s =
     (let s1 = s\<lparr>source_intervals :=
                  emplace_interval (StartPosition (shared f), EndPosition (shared f))
                    (source_intervals s)\<rparr>;
          function_script_source = script_source (shared f)
      in if full_source s1 = None then s1\<lparr>full_source := Some function_script_source\<rparr>
         else if snd (string_chars (heap s1) (full_source s1)) \<noteq>
                 snd (string_chars (heap s1) (Some function_script_source))
         then base_Throw ''Cannot include functions from multiple scripts'' s1
         else s1)"

text \<open>
  \<open>DiscoverContext\<close> is only ever called on a function or block context or on the parent
  of a context it was called on, never on a native or script context.
\<close>

fun DiscoverContext :: "Context \<Rightarrow> serializer \<Rightarrow> serializer" where
  "DiscoverContext (InnerContext a k previous ls) s =
     (let s0 = (if \<not> IsNativeContext previous \<and> \<not> IsScriptContext previous
                then DiscoverContext previous s else s)
      in case InsertIntoIndexMap (context_ids s0) (InnerContext a k previous ls) 0 s0 of
           (found, id', ids', s1) \<Rightarrow>
             (let s2 = s1\<lparr>context_ids := ids'\<rparr>
              in if found then s2
                 else s2\<lparr>contexts_list := contexts_list s2 @ [InnerContext a k previous ls],
                         discovery_queue := discovery_queue s2 @ map snd ls\<rparr>))"
| "DiscoverContext NativeContext s = s"
| "DiscoverContext ScriptContext s = s"

definition DiscoverContextAndPrototype :: "JSFunctionFields \<Rightarrow> serializer \<Rightarrow> serializer" where
  "DiscoverContextAndPrototype f s =
     (let s1 = (if IsFunctionContext (function_context f) \<or> IsBlockContext (function_context f)
                then DiscoverContext (function_context f) s else s)
      in if has_prototype_slot f \<and> has_non_instance_prototype f
         then base_Throw ''Functions with non-instance prototypes not supported'' s1
         else if has_prototype_slot f \<and> has_instance_prototype f
         then s1\<lparr>discovery_queue := discovery_queue s1 @ [instance_prototype f]\<rparr>
         else s1)"

definition DiscoverFunction :: "Object \<Rightarrow> JSFunctionFields \<Rightarrow> serializer \<Rightarrow> serializer" where
  "DiscoverFunction function f s =
     (case InsertIntoIndexMap (function_ids s) function 0 s of
        (found, id', ids', s1) \<Rightarrow>
          (let s2 = s1\<lparr>function_ids := ids'\<rparr>
           in if found then s2
              else DiscoverSource f
                     (DiscoverContextAndPrototype f
                        (s2\<lparr>functions_list := functions_list s2 @ [function]\<rparr>))))"

definition DiscoverClass :: "Object \<Rightarrow> JSFunctionFields \<Rightarrow> serializer \<Rightarrow> serializer" where
  "DiscoverClass function f s =
     (case InsertIntoIndexMap (class_ids s) function 0 s of
        (found, id', ids', s1) \<Rightarrow>
          (let s2 = s1\<lparr>class_ids := ids'\<rparr>
           in if found then s2
              else DiscoverSource f
                     (DiscoverContextAndPrototype f
                        (s2\<lparr>classes_list := classes_list s2 @ [function]\<rparr>))))"

definition DiscoverArray :: "Object \<Rightarrow> JSArrayFields \<Rightarrow> serializer \<Rightarrow> serializer" where
  "DiscoverArray array ar s =
     (case InsertIntoIndexMap (array_ids s) array 0 s of
        (found, id', ids', s1) \<Rightarrow>
          (let s2 = s1\<lparr>array_ids := ids'\<rparr>
           in if found then s2
              else
                (let s3 = s2\<lparr>arrays_list := arrays_list s2 @ [array]\<rparr>
                 in if GetElementsKind ar \<noteq> PACKED_SMI_ELEMENTS \<and>
                       GetElementsKind ar \<noteq> PACKED_ELEMENTS
                    then base_Throw ''Unsupported array'' s3
                    else s3\<lparr>discovery_queue := discovery_queue s3 @ array_elements ar\<rparr>)))"

text \<open>
  \<open>HasFastProperties\<close> is read after \<open>MigrateSlowToFast\<close>. The object has one field for each
  own descriptor of its map; \<open>FastPropertyAt\<close> reads the field of a descriptor.
\<close>

definition FastPropertyAt :: "JSObjectFields \<Rightarrow> nat \<Rightarrow> Object" where
  "FastPropertyAt ob i = (if i < length (property_values ob) then property_values ob ! i else Smi 0)"

definition own_property_values :: "JSObjectFields \<Rightarrow> Object list" where
  "own_property_values ob =
     map (FastPropertyAt ob) [0..<length (own_descriptors (object_map ob))]"

definition DiscoverObject :: "isolate \<Rightarrow> Object \<Rightarrow> JSObjectFields \<Rightarrow> serializer \<Rightarrow> serializer" where
  "DiscoverObject I object ob s =
     (case InsertIntoIndexMap (object_ids s) object 0 s of
        (found, id', ids', s1) \<Rightarrow>
          (let s2 = s1\<lparr>object_ids := ids'\<rparr>
           in if found then s2
              else
                (let s3 = s2\<lparr>objects_list := objects_list s2 @ [object]\<rparr>;
                     s4 = (if \<not> HasFastProperties ob
                           then base_Throw ''Dictionary mode objects not supported'' s3 else s3);
                     s5 = (if map_prototype (object_map ob) \<noteq> initial_object_prototype I
                           then s4\<lparr>discovery_queue :=
                                     discovery_queue s4 @ [map_prototype (object_map ob)]\<rparr>
                           else s4)
                 in s5\<lparr>discovery_queue := discovery_queue s5 @ own_property_values ob\<rparr>)))"

text \<open>The body of the loop of \<open>Discovery\<close> for the object at the front of the queue.\<close>

fun Discovery_visit :: "isolate \<Rightarrow> Object \<Rightarrow> serializer \<Rightarrow> serializer" where
  "Discovery_visit I (Smi v) s = s"
| "Discovery_visit I (HeapPtr a) s =
     (case heap_at (heap s) a of
        JSFunction f \<Rightarrow> DiscoverFunction (HeapPtr a) f s
      | JSClassConstructor f \<Rightarrow> DiscoverClass (HeapPtr a) f s
      | JSObject ob \<Rightarrow> DiscoverObject I (HeapPtr a) ob s
      | JSArray ar \<Rightarrow> DiscoverArray (HeapPtr a) ar s
      | Oddball k \<Rightarrow> s
      | HeapNumber d \<Rightarrow> s
      | JSPrimitiveWrapper v \<Rightarrow> s
      | JSRegExp r \<Rightarrow> s
      | JSString one_byte cs \<Rightarrow> s
      | OtherHeapObject \<Rightarrow> base_Throw ''Unsupported object'' s)"

partial_function (option) Discovery_loop :: "isolate \<Rightarrow> serializer \<Rightarrow> serializer option" where
  "Discovery_loop I s =
     (if discovery_queue s = [] then Some s
      else Discovery_loop I
             ((Discovery_visit I (hd (discovery_queue s)) s)
                \<lparr>discovery_queue := tl (discovery_queue (Discovery_visit I (hd (discovery_queue s)) s))\<rparr>))"

declare Discovery_loop.simps [code]

definition Discovery :: "isolate \<Rightarrow> Object \<Rightarrow> serializer \<Rightarrow> serializer option" where
  "Discovery I start_object s =
     Discovery_loop I (s\<lparr>discovery_queue := discovery_queue s @ [start_object]\<rparr>)"

subsection \<open>Writing the records\<close>

definition SerializeFunctionInfo :: "Sink \<Rightarrow> JSFunctionFields \<Rightarrow> serializer \<Rightarrow> serializer" where
  "SerializeFunctionInfo sink f s =
     (if \<not> HasSourceCode (shared f) then base_Throw ''Function without source code'' s
      else
        (let s1 = (if IsNativeContext (function_context f) \<or> IsScriptContext (function_context f)
                   then emit sink (WriteUint32 0) s
                   else emit sink (WriteUint32 (GetContextId s (function_context f) + 1)) s);
             s2 = emit sink (WriteUint32 (source_id s1)) s1;
             start_pos = StartPosition (shared f);
             end_pos = EndPosition (shared f);
             s3 = emit sink
                    (WriteUint32 (of_int (source_offset_to_compacted_source_offset s2 start_pos))) s2;
             s4 = emit sink (WriteUint32 (of_int (end_pos - start_pos))) s3;
             s5 = emit sink (WriteUint32 (formal_parameter_count (shared f))) s4
         in case FunctionKindToFunctionFlags (function_kind (shared f)) s5 of
              (flags, s6) \<Rightarrow>
                (let s7 = emit sink (WriteUint32 flags) s6
                 in if has_prototype_slot f \<and> has_instance_prototype f
                    then emit sink (WriteUint32 (GetObjectId s7 (instance_prototype f) + 1)) s7
                    else emit sink (WriteUint32 0) s7)))"

text \<open>
  \<open>JSRegExp::StringFromFlags\<close> builds a new string each time it is called: the flags
  string is allocated on the heap before it is serialized.
\<close>

fun WriteValue :: "Object \<Rightarrow> Sink \<Rightarrow> serializer \<Rightarrow> serializer" where
  "WriteValue (Smi v) sink s =
     emit sink (WriteUint32 (ValueType_code INTEGER) @ WriteZigZag v) s"
| "WriteValue (HeapPtr a) sink s =
     (case heap_at (heap s) a of
        Oddball k \<Rightarrow>
          (case k of
             kFalse \<Rightarrow> emit sink (WriteUint32 (ValueType_code FALSE_CONSTANT)) s
           | kTrue \<Rightarrow> emit sink (WriteUint32 (ValueType_code TRUE_CONSTANT)) s
           | kNull \<Rightarrow> emit sink (WriteUint32 (ValueType_code NULL_CONSTANT)) s
           | kUndefined \<Rightarrow> emit sink (WriteUint32 (ValueType_code UNDEFINED_CONSTANT)) s
           | kOtherOddball \<Rightarrow> s\<lparr>unreachable_hit := True\<rparr>)
      | HeapNumber d \<Rightarrow> emit sink (WriteUint32 (ValueType_code DOUBLE) @ WriteDouble d) s
      | JSFunction f \<Rightarrow>
          emit sink (WriteUint32 (ValueType_code FUNCTION_ID) @
                     WriteUint32 (GetFunctionId s (HeapPtr a))) s
      | JSClassConstructor f \<Rightarrow>
          emit sink (WriteUint32 (ValueType_code CLASS_ID) @
                     WriteUint32 (GetClassId s (HeapPtr a))) s
      | JSObject ob \<Rightarrow>
          emit sink (WriteUint32 (ValueType_code OBJECT_ID) @
                     WriteUint32 (GetObjectId s (HeapPtr a))) s
      | JSArray ar \<Rightarrow>
          emit sink (WriteUint32 (ValueType_code ARRAY_ID) @
                     WriteUint32 (GetArrayId s (HeapPtr a))) s
      | JSRegExp r \<Rightarrow>
          (if \<not> has_initial_regexp_map r then base_Throw ''Unsupported RegExp map'' s
           else
             (let flags_address = length (heap s);
                  s1 = s\<lparr>heap := heap s @ [JSString True (regexp_flags_string r)]\<rparr>
              in case SerializeString (regexp_source r) 0 s1 of
                   (pattern_id, s2) \<Rightarrow>
                     (case SerializeString (HeapPtr flags_address) 0 s2 of
                        (flags_id, s3) \<Rightarrow>
                          emit sink (WriteUint32 (ValueType_code REGEXP) @
                                     WriteUint32 pattern_id @ WriteUint32 flags_id) s3)))
      | JSString one_byte cs \<Rightarrow>
          (case SerializeString (HeapPtr a) 0 s of
             (id', s1) \<Rightarrow>
               emit sink (WriteUint32 (ValueType_code STRING_ID) @ WriteUint32 id') s1)
      | JSPrimitiveWrapper v \<Rightarrow> base_Throw ''Unsupported object'' s
      | OtherHeapObject \<Rightarrow> base_Throw ''Unsupported object'' s)"

fun SerializeContext_variables :: "(Object \<times> Object) list \<Rightarrow> serializer \<Rightarrow> serializer" where
  "SerializeContext_variables [] s = s"
| "SerializeContext_variables ((name, v) # rest) s =
     (case SerializeString name 0 s of
        (string_id, s1) \<Rightarrow>
          SerializeContext_variables rest
            (WriteValue v ContextSink (emit ContextSink (WriteUint32 string_id) s1)))"

definition SerializeContext :: "Context \<Rightarrow> serializer \<Rightarrow> serializer" where
  "SerializeContext context s =
     (case context of
        InnerContext a k previous ls \<Rightarrow>
          (let parent_context_id =
                 (if \<not> IsNativeContext previous \<and> \<not> IsScriptContext previous
                  then GetContextId s previous + 1 else 0)
           in if k = OtherContextKind then base_Throw ''Unsupported context type'' s
              else
                (let s1 = emit ContextSink
                            (WriteUint32 (if k = FunctionContextKind then ContextType_FUNCTION
                                          else ContextType_BLOCK)) s;
                     s2 = emit ContextSink (WriteUint32 parent_context_id) s1;
                     s3 = emit ContextSink (WriteUint32 (of_nat (length ls))) s2
                 in SerializeContext_variables ls s3))
      | _ \<Rightarrow> base_Throw ''Unsupported context type'' s)"

fun WriteValues :: "Object list \<Rightarrow> Sink \<Rightarrow> serializer \<Rightarrow> serializer" where
  "WriteValues [] sink s = s"
| "WriteValues (v # vs) sink s = WriteValues vs sink (WriteValue v sink s)"

text \<open>
  \<open>SerializeObject\<close> compares the map with the object's map once more after
  \<open>SerializeMap\<close>; nothing in between changes the object, so the ``Map changed'' branch is
  not taken.
\<close>

definition SerializeObject :: "isolate \<Rightarrow> JSObjectFields \<Rightarrow> serializer \<Rightarrow> serializer" where
  "SerializeObject I ob s =
     (case SerializeMap I (object_map ob) 0 s of
        (map_id, s1) \<Rightarrow>
          WriteValues (own_property_values ob) ObjectSink
            (emit ObjectSink (WriteUint32 map_id) s1))"

definition SerializeArray :: "JSArrayFields \<Rightarrow> serializer \<Rightarrow> serializer" where
  "SerializeArray ar s =
     (if GetElementsKind ar \<noteq> PACKED_SMI_ELEMENTS \<and> GetElementsKind ar \<noteq> PACKED_ELEMENTS
      then base_Throw ''Unsupported array'' s
      else WriteValues (array_elements ar) ArraySink
             (emit ArraySink (WriteUint32 (of_nat (length (array_elements ar)))) s))"

definition SerializeExport :: "Object \<Rightarrow> Object \<Rightarrow> serializer \<Rightarrow> serializer" where
  "SerializeExport object export_name s =
     (let s1 = s\<lparr>export_count := export_count s + 1\<rparr>
      in case SerializeString export_name 0 s1 of
           (string_id, s2) \<Rightarrow>
             (let s3 = emit ExportSink (WriteUint32 string_id) s2
              in case object of
                   HeapPtr a \<Rightarrow>
                     (case heap_at (heap s3) a of
                        JSPrimitiveWrapper export_value \<Rightarrow> WriteValue export_value ExportSink s3
                      | _ \<Rightarrow> WriteValue object ExportSink s3)
                 | Smi v \<Rightarrow> WriteValue object ExportSink s3))"

text \<open>
  The lists hold the objects that \<open>Discovery\<close> found to be of the matching instance type;
  an entry of another type would be a bad cast and is skipped.
\<close>

fun SerializeFunction :: "Object \<Rightarrow> serializer \<Rightarrow> serializer" where
  "SerializeFunction (HeapPtr a) s =
     (case heap_at (heap s) a of
        JSFunction f \<Rightarrow> SerializeFunctionInfo FunctionSink f s
      | _ \<Rightarrow> s)"
| "SerializeFunction (Smi v) s = s"

fun SerializeClass :: "Object \<Rightarrow> serializer \<Rightarrow> serializer" where
  "SerializeClass (HeapPtr a) s =
     (case heap_at (heap s) a of
        JSClassConstructor f \<Rightarrow> SerializeFunctionInfo ClassSink f s
      | _ \<Rightarrow> s)"
| "SerializeClass (Smi v) s = s"

fun SerializeArray_at :: "Object \<Rightarrow> serializer \<Rightarrow> serializer" where
  "SerializeArray_at (HeapPtr a) s =
     (case heap_at (heap s) a of JSArray ar \<Rightarrow> SerializeArray ar s | _ \<Rightarrow> s)"
| "SerializeArray_at (Smi v) s = s"

fun SerializeObject_at :: "isolate \<Rightarrow> Object \<Rightarrow> serializer \<Rightarrow> serializer" where
  "SerializeObject_at I (HeapPtr a) s =
     (case heap_at (heap s) a of JSObject ob \<Rightarrow> SerializeObject I ob s | _ \<Rightarrow> s)"
| "SerializeObject_at I (Smi v) s = s"

definition SerializePendingItems :: "isolate \<Rightarrow> serializer \<Rightarrow> serializer" where
  "SerializePendingItems I s =
     (let s1 = fold SerializeContext (contexts_list s) s;
          s2 = fold SerializeFunction (functions_list s1) s1;
          s3 = fold SerializeClass (classes_list s2) s2;
          s4 = fold SerializeArray_at (arrays_list s3) s3
      in fold (SerializeObject_at I) (objects_list s4) s4)"

text \<open>
  \<open>WriteSnapshot\<close> returns the assembled buffer, or nothing when an error is recorded.
\<close>

definition WriteSnapshot :: "isolate \<Rightarrow> serializer \<Rightarrow> byte list option \<times> serializer" where
  "WriteSnapshot I s =
     (let s1 = SerializePendingItems I s;
          total =
            kMagicNumber @
            WriteUint32 (of_nat (length (string_ids s1))) @ string_serializer s1 @
            WriteUint32 (of_nat (length (map_ids s1))) @ map_serializer s1 @
            WriteUint32 (of_nat (length (context_ids s1))) @ context_serializer s1 @
            WriteUint32 (of_nat (length (function_ids s1))) @ function_serializer s1 @
            WriteUint32 (of_nat (length (array_ids s1))) @ array_serializer s1 @
            WriteUint32 (of_nat (length (object_ids s1))) @ object_serializer s1 @
            WriteUint32 (of_nat (length (class_ids s1))) @ class_serializer s1 @
            WriteUint32 (export_count s1) @ export_serializer s1
      in if has_error s1 then (None, s1) else (Some total, s1))"

text \<open>
  An export is the name string and what running the export's script gave, converted to
  an object (\<open>None\<close> when there is no such object). Discovery of the exports, in order;
  \<open>None\<close> when a discovery does not return, \<open>False\<close> for the return after \<open>Throw\<close>.
\<close>

fun TakeSnapshot_discover ::
  "isolate \<Rightarrow> (Object \<times> Object option) list \<Rightarrow> serializer \<Rightarrow> (bool \<times> serializer) option" where
  "TakeSnapshot_discover I [] s = Some (True, s)"
| "TakeSnapshot_discover I ((name, script_result) # rest) s =
     (case script_result of
        None \<Rightarrow> Some (False, base_Throw ''Exported object not found'' s)
      | Some export_object \<Rightarrow>
          (case Discovery I export_object s of
             None \<Rightarrow> None
           | Some s1 \<Rightarrow> TakeSnapshot_discover I rest s1))"

fun TakeSnapshot_exports :: "(Object \<times> Object option) list \<Rightarrow> serializer \<Rightarrow> serializer" where
  "TakeSnapshot_exports [] s = s"
| "TakeSnapshot_exports ((name, script_result) # rest) s =
     TakeSnapshot_exports rest
       (case script_result of
          Some export_object \<Rightarrow> SerializeExport export_object name s
        | None \<Rightarrow> s)"

text \<open>
  \<open>TakeSnapshot\<close> returns its boolean result and the buffer it stored in \<open>data_out\<close>, if it
  stored one.
\<close>

definition TakeSnapshot ::
  "isolate \<Rightarrow> (Object \<times> Object option) list \<Rightarrow> serializer
   \<Rightarrow> (bool \<times> byte list option \<times> serializer) option" where
  "TakeSnapshot I exports s =
     (if length (string_ids s) > 0
      then Some (False, None, base_Throw ''Can't reuse WebSnapshotSerializer'' s)
      else
        (let s0 = s\<lparr>contexts_list := [], functions_list := [], classes_list := [],
                     arrays_list := [], objects_list := []\<rparr>
         in case TakeSnapshot_discover I exports s0 of
              None \<Rightarrow> None
            | Some (False, s1) \<Rightarrow> Some (False, None, s1)
            | Some (True, s1) \<Rightarrow>
                (case WriteSnapshot I (TakeSnapshot_exports exports (SerializeSource I s1)) of
                   (data_out, s2) \<Rightarrow>
                     if has_error s2 then Some (False, data_out, s2)
                     else Some (True, data_out, s2))))"


section \<open>The deserializer\<close>

subsection \<open>The values and objects it builds\<close>

text \<open>
  A decoded value is a number, one of the four constants, a string (by its bytes), a
  pointer to an object built during decoding, or one of three objects of the host that
  exist beforehand: the default prototype of objects, the function whose initial map is
  the shape of the empty object, and the current context. The built objects live in a
  store of cells, addressed by position.
\<close>

datatype Tagged =
    TSmi u32
  | TNumber "64 word"
  | TFalse
  | TTrue
  | TNull
  | TUndefined
  | TString "byte list"
  | TRef nat
  | TInitialObjectPrototype
  | TObjectFunction
  | TCurrentContext

record PropertyAttributes =
  READ_ONLY :: bool
  DONT_DELETE :: bool
  DONT_ENUM :: bool

record MapFields =
  descriptors :: "(Tagged \<times> PropertyAttributes) list"
  prototype :: Tagged
  constructor_or_back_pointer :: Tagged
  is_prototype_map :: bool

record FunctionFields =
  kind :: FunctionKind
  start_position :: u32
  end_position :: u32
  parameter_count :: u32
  fn_context :: Tagged
  prototype_or_initial_map :: Tagged

datatype Cell =
    PropertyArrayCell "Tagged list"
  | FixedArrayCell "Tagged list"
  | ContextCell u32 "Tagged list" "Tagged list"
  | JSFunctionCell FunctionFields
  | MapCell MapFields
  | JSObjectCell Tagged Tagged
  | JSArrayCell Tagged u32
  | JSRegExpCell "byte list" "byte list"

text \<open>
  \<open>ContextCell type names slots\<close>: the slots start with the two header slots (the scope
  info, which holds the names, and the parent context), followed by one slot for each
  local. \<open>JSObjectCell map properties\<close>, \<open>JSArrayCell elements length\<close> and
  \<open>JSRegExpCell pattern flags\<close> point to their parts.

  Modelled from the spec: the global dictionary is not among the sources. A dictionary
  has its bindings and the number of bindings it has room for; \<open>EnsureCapacity\<close> returns
  the dictionary itself when it has room for the requested additions and a larger copy
  otherwise, and \<open>Add\<close> puts the binding into the dictionary it is given.
\<close>

record dictionary =
  bindings :: "(Tagged \<times> Tagged) list"
  capacity :: nat

text \<open>
  What the deserializer takes from its surroundings: the two ceilings (constants of
  headers that are not among the sources), and the outcome of the host operations that
  can fail (parsing regular expression flags, compiling a regular expression, compiling
  and running the trailing script).
\<close>

record host =
  kMaxItemCount :: u32
  kMaxNumberOfDescriptors :: u32
  v8_String_kMaxLength :: nat
  FlagsFromString_succeeds :: "byte list \<Rightarrow> bool"
  JSRegExp_New_succeeds :: "byte list \<Rightarrow> byte list \<Rightarrow> bool"
  script_succeeds :: "byte list \<Rightarrow> bool"

text \<open>
  \<open>input\<close> is the part of the buffer from \<open>position_\<close> to \<open>end_\<close>. The tables are the fixed
  arrays behind \<open>strings_handle_\<close> to \<open>objects_handle_\<close>; the raw pointers \<open>strings_\<close> to
  \<open>objects_\<close> are refreshed from the handles after every collection and always denote the
  same arrays. Three flags record behaviour that C++ leaves undefined or that aborts:
  an array access out of bounds, a cast of an object to a type it does not have, and an
  executed \<open>UNREACHABLE()\<close>.
\<close>

record deserializer = base_state +
  input :: "byte list"
  deserialized :: bool
  string_count :: u32
  map_count :: u32
  context_count :: u32
  function_count :: u32
  class_count :: u32
  array_count :: u32
  object_count :: u32
  current_function_count :: u32
  current_class_count :: u32
  current_array_count :: u32
  current_object_count :: u32
  strings_table :: "Tagged list"
  maps_table :: "Tagged list"
  contexts_table :: "Tagged list"
  functions_table :: "Tagged list"
  classes_table :: "Tagged list"
  arrays_table :: "Tagged list"
  objects_table :: "Tagged list"
  deferred_references :: "(Tagged \<times> u32 \<times> ValueType \<times> u32) list"
  cells :: "Cell list"
  dictionaries :: "dictionary list"
  global_dictionary :: nat
  out_of_bounds :: bool
  bad_cast :: bool
  unreachable :: bool

text \<open>
  A new deserializer over a buffer. Cell 0 is the initial map of the object function, the
  shape of the empty object; dictionary 0 is the dictionary of the global object.
\<close>

definition empty_map_cell :: Cell where
  "empty_map_cell =
     MapCell \<lparr>descriptors = [], prototype = TInitialObjectPrototype,
              constructor_or_back_pointer = TObjectFunction, is_prototype_map = False\<rparr>"

definition new_deserializer :: "byte list \<Rightarrow> dictionary \<Rightarrow> deserializer" where
  "new_deserializer buffer global =
     \<lparr>error_message = None, input = buffer, deserialized = False,
      string_count = 0, map_count = 0, context_count = 0, function_count = 0,
      class_count = 0, array_count = 0, object_count = 0,
      current_function_count = 0, current_class_count = 0, current_array_count = 0,
      current_object_count = 0,
      strings_table = [], maps_table = [], contexts_table = [], functions_table = [],
      classes_table = [], arrays_table = [], objects_table = [],
      deferred_references = [], cells = [empty_map_cell],
      dictionaries = [global], global_dictionary = 0,
      out_of_bounds = False, bad_cast = False, unreachable = False\<rparr>"

definition Throw :: "string \<Rightarrow> deserializer \<Rightarrow> deserializer" where
  "Throw message s =
     base_Throw message
       (s\<lparr>string_count := 0, map_count := 0, context_count := 0, class_count := 0,
          function_count := 0, object_count := 0, deferred_references := [],
          input := []\<rparr>)"

definition read_u32 :: "deserializer \<Rightarrow> u32 option \<times> deserializer" where
  "read_u32 s =
     (case ReadUint32 (input s) of
        None \<Rightarrow> (None, s)
      | Some (v, rest) \<Rightarrow> (Some v, s\<lparr>input := rest\<rparr>))"

text \<open>\<open>FixedArray::get\<close> and \<open>set\<close> on a table, with the bounds made explicit.\<close>

definition table_get :: "Tagged list \<Rightarrow> u32 \<Rightarrow> deserializer \<Rightarrow> Tagged \<times> deserializer" where
  "table_get t i s =
     (if unat i < length t then (t ! unat i, s) else (TUndefined, s\<lparr>out_of_bounds := True\<rparr>))"

definition table_set :: "Tagged list \<Rightarrow> u32 \<Rightarrow> Tagged \<Rightarrow> Tagged list option" where
  "table_set t i v = (if unat i < length t then Some (t[unat i := v]) else None)"

definition NewFixedArray :: "u32 \<Rightarrow> Tagged list" where
  "NewFixedArray n = replicate (unat n) TUndefined"

definition allocate :: "Cell \<Rightarrow> deserializer \<Rightarrow> Tagged \<times> deserializer" where
  "allocate c s = (TRef (length (cells s)), s\<lparr>cells := cells s @ [c]\<rparr>)"

definition cell_at :: "deserializer \<Rightarrow> Tagged \<Rightarrow> Cell option" where
  "cell_at s v =
     (case v of TRef a \<Rightarrow> (if a < length (cells s) then Some (cells s ! a) else None)
      | _ \<Rightarrow> None)"

definition put_cell :: "Tagged \<Rightarrow> Cell \<Rightarrow> deserializer \<Rightarrow> deserializer" where
  "put_cell v c s = (case v of TRef a \<Rightarrow> s\<lparr>cells := (cells s)[a := c]\<rparr> | _ \<Rightarrow> s)"

text \<open>
  Writing slot \<open>index\<close> of a property array, a context or a fixed array
  (\<open>container.set(index, value)\<close>).
\<close>

definition container_set :: "Tagged \<Rightarrow> u32 \<Rightarrow> Tagged \<Rightarrow> deserializer \<Rightarrow> deserializer" where
  "container_set container index v s =
     (case cell_at s container of
        Some (PropertyArrayCell vs) \<Rightarrow>
          (if unat index < length vs
           then put_cell container (PropertyArrayCell (vs[unat index := v])) s
           else s\<lparr>out_of_bounds := True\<rparr>)
      | Some (FixedArrayCell vs) \<Rightarrow>
          (if unat index < length vs
           then put_cell container (FixedArrayCell (vs[unat index := v])) s
           else s\<lparr>out_of_bounds := True\<rparr>)
      | Some (ContextCell t names slots) \<Rightarrow>
          (if unat index < length slots
           then put_cell container (ContextCell t names (slots[unat index := v])) s
           else s\<lparr>out_of_bounds := True\<rparr>)
      | _ \<Rightarrow> s\<lparr>bad_cast := True\<rparr>)"

subsection \<open>Strings\<close>

text \<open>A loop counter below its bound does not wrap around when it is incremented.\<close>

lemma unat_inc_less:
  fixes i n :: "'a::len word"
  assumes "i < n"
  shows "unat (i + 1) = Suc (unat i)"
proof -
  have "unat i < unat n" using assms by (simp add: word_less_nat_alt)
  moreover have "unat n < 2 ^ LENGTH('a)" by simp
  ultimately have "unat i + 1 < 2 ^ LENGTH('a)" by linarith
  then have "unat (i + 1) = unat i + unat (1 :: 'a word)"
    by (simp add: unat_add_lem[THEN iffD1])
  then show ?thesis by simp
qed

lemma loop_measure_decreases:
  fixes i n m :: "'a::len word"
  assumes "i < n" and "m = n"
  shows "unat m - unat (i + 1) < unat n - unat i"
  using assms unat_inc_less[OF assms(1)] by (simp add: word_less_nat_alt)

function DeserializeStrings_loop :: "u32 \<Rightarrow> deserializer \<Rightarrow> deserializer" where
  "DeserializeStrings_loop i s =
     (if i < string_count s then
        (case ReadUtf8String (input s) of
           None \<Rightarrow> Throw ''Malformed string'' s
         | Some (str, rest) \<Rightarrow>
             DeserializeStrings_loop (i + 1)
               (case table_set (strings_table s) i (TString str) of
                  Some t \<Rightarrow> s\<lparr>input := rest, strings_table := t\<rparr>
                | None \<Rightarrow> s\<lparr>input := rest, out_of_bounds := True\<rparr>))
      else s)"
  by pat_completeness auto
termination
  by (relation "measure (\<lambda>(i, s). unat (string_count s) - unat i)")
     (auto split: option.splits intro!: loop_measure_decreases)

definition DeserializeStrings :: "host \<Rightarrow> deserializer \<Rightarrow> deserializer" where
  "DeserializeStrings H s =
     (case read_u32 s of
        (None, s1) \<Rightarrow> Throw ''Malformed string table'' s1
      | (Some n, s1) \<Rightarrow>
          (let s2 = s1\<lparr>string_count := n\<rparr>
           in if string_count s2 > kMaxItemCount H then Throw ''Malformed string table'' s2
              else DeserializeStrings_loop 0
                     (s2\<lparr>strings_table := NewFixedArray (string_count s2)\<rparr>)))"

text \<open>
  \<open>ReadString\<close>. Internalizing a string puts the internalized string, which has the same
  characters, back into the same table slot; the table of the model stays as it is.
\<close>

definition ReadString :: "bool \<Rightarrow> deserializer \<Rightarrow> Tagged \<times> deserializer" where
  "ReadString internalize s =
     (case read_u32 s of
        (None, s1) \<Rightarrow> (TString [], Throw ''malformed string id'' s1)
      | (Some string_id, s1) \<Rightarrow>
          (if string_id \<ge> string_count s1 then (TString [], Throw ''malformed string id'' s1)
           else table_get (strings_table s1) string_id s1))"


subsection \<open>What the reading steps leave alone\<close>

text \<open>
  No step of the table readers raises a table count or moves one of the four fill levels:
  a count stays or is reset by \<open>Throw\<close>. The loops bounded by a count end for that reason.
\<close>

definition counts_le :: "deserializer \<Rightarrow> deserializer \<Rightarrow> bool" where
  "counts_le s' s =
     (string_count s' \<le> string_count s \<and> map_count s' \<le> map_count s \<and>
      context_count s' \<le> context_count s \<and> function_count s' \<le> function_count s \<and>
      class_count s' \<le> class_count s \<and> array_count s' \<le> array_count s \<and>
      object_count s' \<le> object_count s \<and>
      current_function_count s' = current_function_count s \<and>
      current_class_count s' = current_class_count s \<and>
      current_array_count s' = current_array_count s \<and>
      current_object_count s' = current_object_count s)"

lemma counts_le_refl: "counts_le s s"
  by (simp add: counts_le_def)

lemma counts_le_updates:
  "counts_le (s'\<lparr>input := i\<rparr>) s = counts_le s' s"
  "counts_le (s'\<lparr>cells := c\<rparr>) s = counts_le s' s"
  "counts_le (s'\<lparr>deferred_references := d\<rparr>) s = counts_le s' s"
  "counts_le (s'\<lparr>out_of_bounds := b\<rparr>) s = counts_le s' s"
  "counts_le (s'\<lparr>bad_cast := b\<rparr>) s = counts_le s' s"
  "counts_le (s'\<lparr>unreachable := b\<rparr>) s = counts_le s' s"
  "counts_le (s'\<lparr>strings_table := t\<rparr>) s = counts_le s' s"
  "counts_le (s'\<lparr>maps_table := t\<rparr>) s = counts_le s' s"
  "counts_le (s'\<lparr>contexts_table := t\<rparr>) s = counts_le s' s"
  "counts_le (s'\<lparr>functions_table := t\<rparr>) s = counts_le s' s"
  "counts_le (s'\<lparr>classes_table := t\<rparr>) s = counts_le s' s"
  "counts_le (s'\<lparr>arrays_table := t\<rparr>) s = counts_le s' s"
  "counts_le (s'\<lparr>objects_table := t\<rparr>) s = counts_le s' s"
  "counts_le (s'\<lparr>dictionaries := ds\<rparr>) s = counts_le s' s"
  "counts_le (s'\<lparr>global_dictionary := g\<rparr>) s = counts_le s' s"
  "counts_le (s'\<lparr>error_message := e\<rparr>) s = counts_le s' s"
  by (simp_all add: counts_le_def)

lemma counts_le_base_Throw: "counts_le (base_Throw m s') s = counts_le s' s"
  by (simp add: base_Throw_def counts_le_updates)

lemma counts_le_Throw: "counts_le s' s \<Longrightarrow> counts_le (Throw m s') s"
  by (simp add: Throw_def counts_le_base_Throw) (simp add: counts_le_def)

lemma counts_le_read_u32: "counts_le s' s \<Longrightarrow> counts_le (snd (read_u32 s')) s"
  by (simp add: read_u32_def counts_le_updates split: option.splits)

lemma counts_le_table_get: "counts_le s' s \<Longrightarrow> counts_le (snd (table_get t i s')) s"
  by (simp add: table_get_def counts_le_updates)

lemma counts_le_allocate: "counts_le s' s \<Longrightarrow> counts_le (snd (allocate c s')) s"
  by (simp add: allocate_def counts_le_updates)

lemma counts_le_put_cell: "counts_le (put_cell v c s') s = counts_le s' s"
  by (simp add: put_cell_def counts_le_updates split: Tagged.splits)

lemma counts_le_container_set: "counts_le s' s \<Longrightarrow> counts_le (container_set c i v s') s"
  by (simp add: container_set_def counts_le_updates counts_le_put_cell
      split: option.splits Cell.splits)

lemma counts_le_ReadString: "counts_le s' s \<Longrightarrow> counts_le (snd (ReadString b s')) s"
  by (simp add: ReadString_def split_def counts_le_read_u32 counts_le_table_get counts_le_Throw
      split: option.splits)

lemma loop_measure_shrinks:
  fixes i n m :: "'a::len word"
  assumes "i < n" and "m \<le> n"
  shows "unat m - unat (i + 1) < unat n - unat i"
  using assms unat_inc_less[OF assms(1)] by (simp add: word_less_nat_alt word_le_nat_alt)

subsection \<open>Values and deferred references\<close>

text \<open>
  A container handle is \<open>None\<close> where the source passes the null handle. The value that
  stands for a reference not yet resolved is \<open>undefined\<close>.
\<close>

definition AddDeferredReference ::
  "Tagged option \<Rightarrow> u32 \<Rightarrow> ValueType \<Rightarrow> u32 \<Rightarrow> deserializer \<Rightarrow> Tagged \<times> deserializer" where
  "AddDeferredReference container index target_type target_index s =
     (case container of
        None \<Rightarrow>
          (TUndefined,
           Throw (case target_type of
                    ARRAY_ID \<Rightarrow> ''Invalid array reference''
                  | OBJECT_ID \<Rightarrow> ''Invalid object reference''
                  | CLASS_ID \<Rightarrow> ''Invalid class reference''
                  | FUNCTION_ID \<Rightarrow> ''Invalid function reference''
                  | _ \<Rightarrow> ''Invalid reference'') s)
      | Some c \<Rightarrow>
          (TUndefined,
           s\<lparr>deferred_references :=
               deferred_references s @ [(c, index, target_type, target_index)]\<rparr>))"

definition ReadValue ::
  "host \<Rightarrow> Tagged option \<Rightarrow> u32 \<Rightarrow> deserializer \<Rightarrow> Tagged \<times> deserializer" where
  "ReadValue H object_for_deferred_reference index_for_deferred_reference s =
     (case read_u32 s of
        (None, s1) \<Rightarrow> (TSmi 0, Throw ''Malformed variable'' s1)
      | (Some value_type, s1) \<Rightarrow>
          (case ValueType_of_code value_type of
             Some FALSE_CONSTANT \<Rightarrow> (TFalse, s1)
           | Some TRUE_CONSTANT \<Rightarrow> (TTrue, s1)
           | Some NULL_CONSTANT \<Rightarrow> (TNull, s1)
           | Some UNDEFINED_CONSTANT \<Rightarrow> (TUndefined, s1)
           | Some INTEGER \<Rightarrow>
               (case ReadZigZag (input s1) of
                  None \<Rightarrow> (TSmi 0, Throw ''Malformed integer'' s1)
                | Some (number, rest) \<Rightarrow> (TSmi number, s1\<lparr>input := rest\<rparr>))
           | Some DOUBLE \<Rightarrow>
               (case ReadDouble (input s1) of
                  None \<Rightarrow> (TSmi 0, Throw ''Malformed double'' s1)
                | Some (number, rest) \<Rightarrow> (TNumber number, s1\<lparr>input := rest\<rparr>))
           | Some STRING_ID \<Rightarrow> ReadString False s1
           | Some ARRAY_ID \<Rightarrow>
               (case read_u32 s1 of
                  (None, s2) \<Rightarrow> (TSmi 0, Throw ''Malformed variable'' s2)
                | (Some array_id, s2) \<Rightarrow>
                    (if array_id \<ge> kMaxItemCount H
                     then (TSmi 0, Throw ''Malformed variable'' s2)
                     else if array_id < current_array_count s2
                     then table_get (arrays_table s2) array_id s2
                     else AddDeferredReference object_for_deferred_reference
                            index_for_deferred_reference ARRAY_ID array_id s2))
           | Some OBJECT_ID \<Rightarrow>
               (case read_u32 s1 of
                  (None, s2) \<Rightarrow> (TSmi 0, Throw ''Malformed variable'' s2)
                | (Some object_id, s2) \<Rightarrow>
                    (if object_id > kMaxItemCount H
                     then (TSmi 0, Throw ''Malformed variable'' s2)
                     else if object_id < current_object_count s2
                     then table_get (objects_table s2) object_id s2
                     else AddDeferredReference object_for_deferred_reference
                            index_for_deferred_reference OBJECT_ID object_id s2))
           | Some FUNCTION_ID \<Rightarrow>
               (case read_u32 s1 of
                  (None, s2) \<Rightarrow> (TSmi 0, Throw ''Malformed object property'' s2)
                | (Some function_id, s2) \<Rightarrow>
                    (if function_id \<ge> function_count s2
                     then (TSmi 0, Throw ''Malformed object property'' s2)
                     else if function_id < current_function_count s2
                     then table_get (functions_table s2) function_id s2
                     else AddDeferredReference object_for_deferred_reference
                            index_for_deferred_reference FUNCTION_ID function_id s2))
           | Some CLASS_ID \<Rightarrow>
               (case read_u32 s1 of
                  (None, s2) \<Rightarrow> (TSmi 0, Throw ''Malformed object property'' s2)
                | (Some class_id, s2) \<Rightarrow>
                    (if class_id \<ge> kMaxItemCount H
                     then (TSmi 0, Throw ''Malformed object property'' s2)
                     else if class_id < current_class_count s2
                     then table_get (classes_table s2) class_id s2
                     else AddDeferredReference object_for_deferred_reference
                            index_for_deferred_reference CLASS_ID class_id s2))
           | Some REGEXP \<Rightarrow>
               (case ReadString False s1 of
                  (pattern, s2) \<Rightarrow>
                    (case ReadString False s2 of
                       (flags_string, s3) \<Rightarrow>
                         (case (pattern, flags_string) of
                            (TString p, TString f) \<Rightarrow>
                              (if \<not> FlagsFromString_succeeds H f
                               then (TSmi 0, Throw ''Malformed flags in regular expression'' s3)
                               else if \<not> JSRegExp_New_succeeds H p f
                               then (TSmi 0, Throw ''Malformed RegExp'' s3)
                               else allocate (JSRegExpCell p f) s3)
                          | _ \<Rightarrow> (TSmi 0, s3\<lparr>bad_cast := True\<rparr>))))
           | None \<Rightarrow> (TSmi 0, Throw ''Unsupported value type'' s1)))"

lemma counts_le_AddDeferredReference:
  "counts_le s' s \<Longrightarrow> counts_le (snd (AddDeferredReference c i t x s')) s"
  by (simp add: AddDeferredReference_def counts_le_updates counts_le_Throw split: option.splits)

lemmas counts_le_basic =
  counts_le_updates counts_le_Throw counts_le_base_Throw counts_le_read_u32 counts_le_table_get
  counts_le_allocate counts_le_put_cell counts_le_container_set counts_le_ReadString
  counts_le_AddDeferredReference

lemma counts_le_ReadValue:
  "counts_le s' s \<Longrightarrow> counts_le (snd (ReadValue H c i s')) s"
  unfolding ReadValue_def
  by (simp add: split_def counts_le_basic
      split: option.splits ValueType.splits Tagged.splits)
subsection \<open>Shapes\<close>

definition FlagsToAttributes :: "u32 \<Rightarrow> PropertyAttributes" where
  "FlagsToAttributes flags =
     \<lparr>READ_ONLY = bf_decode ReadOnlyBitField flags,
      DONT_DELETE = \<not> bf_decode ConfigurableBitField flags,
      DONT_ENUM = \<not> bf_decode EnumerableBitField flags\<rparr>"

definition PropertyAttributes_NONE :: PropertyAttributes where
  "PropertyAttributes_NONE = \<lparr>READ_ONLY = False, DONT_DELETE = False, DONT_ENUM = False\<rparr>"

text \<open>The initial map of the object function: the one shape of objects without properties.\<close>

definition empty_map :: Tagged where
  "empty_map = TRef 0"

definition maps_set :: "u32 \<Rightarrow> Tagged \<Rightarrow> deserializer \<Rightarrow> deserializer" where
  "maps_set i v s =
     (case table_set (maps_table s) i v of
        Some t \<Rightarrow> s\<lparr>maps_table := t\<rparr>
      | None \<Rightarrow> s\<lparr>out_of_bounds := True\<rparr>)"

definition set_prototype :: "Tagged \<Rightarrow> Tagged \<Rightarrow> deserializer \<Rightarrow> deserializer" where
  "set_prototype m p s =
     (case cell_at s m of
        Some (MapCell f) \<Rightarrow> put_cell m (MapCell (f\<lparr>prototype := p\<rparr>)) s
      | _ \<Rightarrow> s\<lparr>bad_cast := True\<rparr>)"

text \<open>
  The loop over the properties of one shape, \<open>n\<close> of them still to read; \<open>None\<close> is the
  return after \<open>Throw\<close>. The descriptors stay in the order read (sorting them by name
  does not change the field index of any).
\<close>

fun DeserializeMaps_descriptors ::
  "bool \<Rightarrow> nat \<Rightarrow> (Tagged \<times> PropertyAttributes) list \<Rightarrow> deserializer
   \<Rightarrow> (Tagged \<times> PropertyAttributes) list option \<times> deserializer" where
  "DeserializeMaps_descriptors has_custom_property_attributes 0 ds s = (Some ds, s)"
| "DeserializeMaps_descriptors has_custom_property_attributes (Suc n) ds s =
     (if has_custom_property_attributes then
        (case read_u32 s of
           (None, s1) \<Rightarrow> (None, Throw ''Malformed shape'' s1)
         | (Some flags, s1) \<Rightarrow>
             (case ReadString True s1 of
                (key, s2) \<Rightarrow>
                  DeserializeMaps_descriptors has_custom_property_attributes n
                    (ds @ [(key, FlagsToAttributes flags)]) s2))
      else
        (case ReadString True s of
           (key, s2) \<Rightarrow>
             DeserializeMaps_descriptors has_custom_property_attributes n
               (ds @ [(key, PropertyAttributes_NONE)]) s2))"

text \<open>
  One iteration of the loop of \<open>DeserializeMaps\<close>, for the shape with id \<open>i\<close>; the boolean
  tells whether the loop goes on (\<open>False\<close>: the function returned).
\<close>

definition DeserializeMaps_body :: "host \<Rightarrow> u32 \<Rightarrow> deserializer \<Rightarrow> bool \<times> deserializer" where
  "DeserializeMaps_body H i s =
     (case read_u32 s of
        (None, s1) \<Rightarrow> (False, Throw ''Malformed shape'' s1)
      | (Some map_type, s1) \<Rightarrow>
          (if map_type \<noteq> PropertyAttributesType_DEFAULT \<and>
              map_type \<noteq> PropertyAttributesType_CUSTOM
           then (False, Throw ''Unsupported map type'' s1)
           else
             (case read_u32 s1 of
                (None, s2) \<Rightarrow> (False, Throw ''Malformed shape'' s2)
              | (Some prototype_id, s2) \<Rightarrow>
                  (if prototype_id > kMaxItemCount H then (False, Throw ''Malformed shape'' s2)
                   else
                     (case read_u32 s2 of
                        (None, s3) \<Rightarrow> (False, Throw ''Malformed shape'' s3)
                      | (Some property_count, s3) \<Rightarrow>
                          (if property_count > kMaxNumberOfDescriptors H
                           then (False, Throw ''Malformed shape: too many properties'' s3)
                           else if property_count = 0
                           then (False, maps_set i empty_map s3)
                           else
                             (case DeserializeMaps_descriptors
                                     (map_type = PropertyAttributesType_CUSTOM)
                                     (unat property_count) [] s3 of
                                (None, s4) \<Rightarrow> (False, s4)
                              | (Some ds, s4) \<Rightarrow>
                                  (case allocate
                                          (MapCell \<lparr>descriptors = ds, prototype = TNull,
                                                    constructor_or_back_pointer = TNull,
                                                    is_prototype_map = False\<rparr>) s4 of
                                     (m, s5) \<Rightarrow>
                                       (True, maps_set i m
                                          (if prototype_id = 0
                                           then set_prototype m TInitialObjectPrototype s5
                                           else if prototype_id - 1 < current_object_count s5
                                           then (case table_get (objects_table s5)
                                                        (prototype_id - 1) s5 of
                                                   (p, s6) \<Rightarrow> set_prototype m p s6)
                                           else snd (AddDeferredReference (Some m) 0 OBJECT_ID
                                                       (prototype_id - 1) s5)))))))))))"

lemma counts_le_maps_set: "counts_le s' s \<Longrightarrow> counts_le (maps_set i v s') s"
  by (simp add: maps_set_def counts_le_basic split: option.splits)

lemma counts_le_set_prototype: "counts_le s' s \<Longrightarrow> counts_le (set_prototype m p s') s"
  by (simp add: set_prototype_def counts_le_basic split: option.splits Cell.splits)

lemma counts_le_DeserializeMaps_descriptors:
  "counts_le s' s \<Longrightarrow> counts_le (snd (DeserializeMaps_descriptors c n ds s')) s"
proof (induction n arbitrary: c ds s')
  case 0
  then show ?case by simp
next
  case (Suc n)
  show ?case
    using Suc.prems by (simp add: split_def counts_le_basic Suc.IH split: option.splits)
qed

lemma counts_le_DeserializeMaps_body:
  "counts_le s' s \<Longrightarrow> counts_le (snd (DeserializeMaps_body H i s')) s"
  unfolding DeserializeMaps_body_def
  by (simp add: split_def counts_le_basic counts_le_maps_set counts_le_set_prototype
      counts_le_DeserializeMaps_descriptors split: option.splits)

lemma DeserializeMaps_loop_decreases:
  assumes "i < map_count s" and "(b, y) = DeserializeMaps_body H i s"
  shows "unat (map_count y) - unat (i + 1) < unat (map_count s) - unat i"
proof -
  have "y = snd (DeserializeMaps_body H i s)" using assms(2) by (metis snd_conv)
  then have "counts_le y s" by (simp add: counts_le_DeserializeMaps_body counts_le_refl)
  then have "map_count y \<le> map_count s" by (simp add: counts_le_def)
  with assms(1) show ?thesis by (rule loop_measure_shrinks)
qed

function DeserializeMaps_loop :: "host \<Rightarrow> u32 \<Rightarrow> deserializer \<Rightarrow> deserializer" where
  "DeserializeMaps_loop H i s =
     (if i < map_count s then
        (case DeserializeMaps_body H i s of
           (False, s1) \<Rightarrow> s1
         | (True, s1) \<Rightarrow> DeserializeMaps_loop H (i + 1) s1)
      else s)"
  by pat_completeness auto
termination
  by (relation "measure (\<lambda>(H, i, s). unat (map_count s) - unat i)")
     (auto intro!: DeserializeMaps_loop_decreases)

definition DeserializeMaps :: "host \<Rightarrow> deserializer \<Rightarrow> deserializer" where
  "DeserializeMaps H s =
     (case read_u32 s of
        (None, s1) \<Rightarrow> Throw ''Malformed shape table'' s1
      | (Some n, s1) \<Rightarrow>
          (let s2 = s1\<lparr>map_count := n\<rparr>
           in if map_count s2 > kMaxItemCount H then Throw ''Malformed shape table'' s2
              else DeserializeMaps_loop H 0 (s2\<lparr>maps_table := NewFixedArray (map_count s2)\<rparr>)))"

subsection \<open>Contexts\<close>

text \<open>
  The two loops over the variables of a context count with an \<open>int\<close> up to
  \<open>static_cast<int>(variable_count)\<close>: they run \<open>variable_count\<close> times when that is below
  \<open>2^31\<close> and not at all otherwise. The context gets one slot for each such variable
  after its header.
\<close>

definition int_count :: "u32 \<Rightarrow> nat" where
  "int_count n = (if n < 0x80000000 then unat n else 0)"

definition ContextHeaderLength :: u32 where
  "ContextHeaderLength = 2"

definition contexts_set :: "u32 \<Rightarrow> Tagged \<Rightarrow> deserializer \<Rightarrow> deserializer" where
  "contexts_set i v s =
     (case table_set (contexts_table s) i v of
        Some t \<Rightarrow> s\<lparr>contexts_table := t\<rparr>
      | None \<Rightarrow> s\<lparr>out_of_bounds := True\<rparr>)"

text \<open>Of \<open>CreateScopeInfo\<close> only the error of its \<open>default\<close> branch matters here.\<close>

definition CreateScopeInfo :: "u32 \<Rightarrow> deserializer \<Rightarrow> deserializer" where
  "CreateScopeInfo context_type s =
     (if context_type = ContextType_FUNCTION \<or> context_type = ContextType_BLOCK then s
      else Throw ''Unsupported context type'' s)"

fun DeserializeContexts_names ::
  "nat \<Rightarrow> Tagged list \<Rightarrow> deserializer \<Rightarrow> Tagged list \<times> deserializer" where
  "DeserializeContexts_names 0 names s = (names, s)"
| "DeserializeContexts_names (Suc n) names s =
     (case ReadString True s of
        (name, s1) \<Rightarrow> DeserializeContexts_names n (names @ [name]) s1)"

fun DeserializeContexts_values ::
  "host \<Rightarrow> Tagged \<Rightarrow> nat \<Rightarrow> u32 \<Rightarrow> deserializer \<Rightarrow> deserializer" where
  "DeserializeContexts_values H context_ref 0 context_index s = s"
| "DeserializeContexts_values H context_ref (Suc n) context_index s =
     (case ReadValue H (Some context_ref) context_index s of
        (v, s1) \<Rightarrow>
          DeserializeContexts_values H context_ref n (context_index + 1)
            (container_set context_ref context_index v s1))"

definition DeserializeContexts_body :: "host \<Rightarrow> u32 \<Rightarrow> deserializer \<Rightarrow> bool \<times> deserializer" where
  "DeserializeContexts_body H i s =
     (case read_u32 s of
        (None, s1) \<Rightarrow> (False, Throw ''Malformed context type'' s1)
      | (Some context_type, s1) \<Rightarrow>
          (case read_u32 s1 of
             (None, s2) \<Rightarrow> (False, Throw ''Malformed context'' s2)
           | (Some parent_context_id, s2) \<Rightarrow>
               (if parent_context_id > i then (False, Throw ''Malformed context'' s2)
                else
                  (case read_u32 s2 of
                     (None, s3) \<Rightarrow> (False, Throw ''Malformed context'' s3)
                   | (Some variable_count, s3) \<Rightarrow>
                       (case (if parent_context_id > 0
                              then table_get (contexts_table (CreateScopeInfo context_type s3))
                                     (parent_context_id - 1) (CreateScopeInfo context_type s3)
                              else (TCurrentContext, CreateScopeInfo context_type s3)) of
                          (parent_context, s4) \<Rightarrow>
                            (case DeserializeContexts_names (int_count variable_count) [] s4 of
                               (names, s5) \<Rightarrow>
                                 (if context_type \<noteq> ContextType_FUNCTION \<and>
                                     context_type \<noteq> ContextType_BLOCK
                                  then (False, Throw ''Unsupported context type'' s5)
                                  else
                                    (case allocate
                                            (ContextCell context_type names
                                               ([TUndefined, parent_context] @
                                                replicate (int_count variable_count)
                                                  TUndefined)) s5 of
                                       (context_ref, s6) \<Rightarrow>
                                         (True, contexts_set i context_ref
                                            (DeserializeContexts_values H context_ref
                                               (int_count variable_count)
                                               ContextHeaderLength s6))))))))))"

lemma counts_le_contexts_set: "counts_le s' s \<Longrightarrow> counts_le (contexts_set i v s') s"
  by (simp add: contexts_set_def counts_le_basic split: option.splits)

lemma counts_le_CreateScopeInfo: "counts_le s' s \<Longrightarrow> counts_le (CreateScopeInfo t s') s"
  by (simp add: CreateScopeInfo_def counts_le_basic)

lemma counts_le_DeserializeContexts_names:
  "counts_le s' s \<Longrightarrow> counts_le (snd (DeserializeContexts_names n names s')) s"
proof (induction n arbitrary: names s')
  case 0
  then show ?case by simp
next
  case (Suc n)
  show ?case using Suc.prems by (simp add: split_def counts_le_basic Suc.IH)
qed

lemma counts_le_DeserializeContexts_values:
  "counts_le s' s \<Longrightarrow> counts_le (DeserializeContexts_values H c n i s') s"
proof (induction n arbitrary: i s')
  case 0
  then show ?case by simp
next
  case (Suc n)
  show ?case
    using Suc.prems by (simp add: split_def counts_le_basic counts_le_ReadValue Suc.IH)
qed

lemma counts_le_DeserializeContexts_body:
  "counts_le s' s \<Longrightarrow> counts_le (snd (DeserializeContexts_body H i s')) s"
  unfolding DeserializeContexts_body_def
  by (simp add: split_def counts_le_basic counts_le_contexts_set counts_le_CreateScopeInfo
      counts_le_DeserializeContexts_names counts_le_DeserializeContexts_values
      split: option.splits)

lemma DeserializeContexts_loop_decreases:
  assumes "i < context_count s" and "(b, y) = DeserializeContexts_body H i s"
  shows "unat (context_count y) - unat (i + 1) < unat (context_count s) - unat i"
proof -
  have "y = snd (DeserializeContexts_body H i s)" using assms(2) by (metis snd_conv)
  then have "counts_le y s" by (simp add: counts_le_DeserializeContexts_body counts_le_refl)
  then have "context_count y \<le> context_count s" by (simp add: counts_le_def)
  with assms(1) show ?thesis by (rule loop_measure_shrinks)
qed

function DeserializeContexts_loop :: "host \<Rightarrow> u32 \<Rightarrow> deserializer \<Rightarrow> deserializer" where
  "DeserializeContexts_loop H i s =
     (if i < context_count s then
        (case DeserializeContexts_body H i s of
           (False, s1) \<Rightarrow> s1
         | (True, s1) \<Rightarrow> DeserializeContexts_loop H (i + 1) s1)
      else s)"
  by pat_completeness auto
termination
  by (relation "measure (\<lambda>(H, i, s). unat (context_count s) - unat i)")
     (auto intro!: DeserializeContexts_loop_decreases)

definition DeserializeContexts :: "host \<Rightarrow> deserializer \<Rightarrow> deserializer" where
  "DeserializeContexts H s =
     (case read_u32 s of
        (None, s1) \<Rightarrow> Throw ''Malformed context table'' s1
      | (Some n, s1) \<Rightarrow>
          (let s2 = s1\<lparr>context_count := n\<rparr>
           in if context_count s2 > kMaxItemCount H then Throw ''Malformed context table'' s2
              else DeserializeContexts_loop H 0
                     (s2\<lparr>contexts_table := NewFixedArray (context_count s2)\<rparr>)))"

subsection \<open>Functions and classes\<close>

text \<open>
  \<open>SetFunctionPrototype\<close> marks the map of the prototype as a prototype map, refuses a map
  that has a constructor already, and otherwise links function and prototype.
\<close>

definition SetFunctionPrototype ::
  "Tagged \<Rightarrow> Tagged \<Rightarrow> deserializer \<Rightarrow> bool \<times> deserializer" where
  "SetFunctionPrototype function_ref prototype_ref s =
     (case cell_at s prototype_ref of
        Some (JSObjectCell m properties) \<Rightarrow>
          (case cell_at s m of
             Some (MapCell f) \<Rightarrow>
               (if constructor_or_back_pointer f \<noteq> TNull \<and>
                   constructor_or_back_pointer f \<noteq> TUndefined
                then (False, put_cell m (MapCell (f\<lparr>is_prototype_map := True\<rparr>)) s)
                else
                  (let s1 = put_cell m
                              (MapCell (f\<lparr>is_prototype_map := True,
                                         constructor_or_back_pointer := function_ref\<rparr>)) s
                   in case cell_at s1 function_ref of
                        Some (JSFunctionCell ff) \<Rightarrow>
                          (True, put_cell function_ref
                                   (JSFunctionCell (ff\<lparr>prototype_or_initial_map := prototype_ref\<rparr>))
                                   s1)
                      | _ \<Rightarrow> (True, s1\<lparr>bad_cast := True\<rparr>)))
           | _ \<Rightarrow> (True, s\<lparr>bad_cast := True\<rparr>))
      | _ \<Rightarrow> (True, s\<lparr>bad_cast := True\<rparr>))"

text \<open>
  \<open>CreateJSFunction\<close>, without the bookkeeping of shared function infos for the script
  (the index argument serves only that). The function starts in the host's context.
\<close>

definition CreateJSFunction ::
  "u32 \<Rightarrow> u32 \<Rightarrow> u32 \<Rightarrow> u32 \<Rightarrow> u32 \<Rightarrow> deserializer \<Rightarrow> Tagged \<times> deserializer" where
  "CreateJSFunction start len param_count flags context_id s =
     (case FunctionFlagsToFunctionKind flags s of
        (k, s1) \<Rightarrow>
          (case allocate
                  (JSFunctionCell \<lparr>kind = k, start_position = start,
                                   end_position = start + len, parameter_count = param_count,
                                   fn_context = TCurrentContext,
                                   prototype_or_initial_map = TUndefined\<rparr>) s1 of
             (function_ref, s2) \<Rightarrow>
               (if context_id > 0 then
                  (case table_get (contexts_table s2) (context_id - 1) s2 of
                     (context_ref, s3) \<Rightarrow>
                       (case cell_at s3 function_ref of
                          Some (JSFunctionCell ff) \<Rightarrow>
                            (function_ref,
                             put_cell function_ref
                               (JSFunctionCell (ff\<lparr>fn_context := context_ref\<rparr>)) s3)
                        | _ \<Rightarrow> (function_ref, s3\<lparr>bad_cast := True\<rparr>)))
                else (function_ref, s2))))"

definition ReadFunctionPrototype :: "host \<Rightarrow> Tagged \<Rightarrow> deserializer \<Rightarrow> deserializer" where
  "ReadFunctionPrototype H function_ref s =
     (case read_u32 s of
        (None, s1) \<Rightarrow> Throw ''Malformed class / function'' s1
      | (Some object_id, s1) \<Rightarrow>
          (if object_id > kMaxItemCount H + 1 then Throw ''Malformed class / function'' s1
           else if object_id = 0 then s1
           else if object_id - 1 < current_object_count s1 then
             (case table_get (objects_table s1) (object_id - 1) s1 of
                (prototype_ref, s2) \<Rightarrow>
                  (case SetFunctionPrototype function_ref prototype_ref s2 of
                     (ok, s3) \<Rightarrow>
                       if ok then s3 else Throw ''Can't reuse function prototype'' s3))
           else snd (AddDeferredReference (Some function_ref) 0 OBJECT_ID (object_id - 1) s1)))"

text \<open>
  The part of a function or class record up to the creation of the function, which the
  two loops share word for word except for the error message; \<open>None\<close> is the return after
  \<open>Throw\<close>.
\<close>

definition read_function_record ::
  "string \<Rightarrow> deserializer \<Rightarrow> Tagged option \<times> deserializer" where
  "read_function_record message s =
     (case read_u32 s of
        (None, s1) \<Rightarrow> (None, Throw message s1)
      | (Some context_id, s1) \<Rightarrow>
          (if context_id > context_count s1 then (None, Throw message s1)
           else
             (case ReadString False s1 of
                (source, s2) \<Rightarrow>
                  (case read_u32 s2 of
                     (None, s3) \<Rightarrow> (None, Throw message s3)
                   | (Some start, s3) \<Rightarrow>
                       (case read_u32 s3 of
                          (None, s4) \<Rightarrow> (None, Throw message s4)
                        | (Some len, s4) \<Rightarrow>
                            (case read_u32 s4 of
                               (None, s5) \<Rightarrow> (None, Throw message s5)
                             | (Some param_count, s5) \<Rightarrow>
                                 (case read_u32 s5 of
                                    (None, s6) \<Rightarrow> (None, Throw message s6)
                                  | (Some flags, s6) \<Rightarrow>
                                      (case CreateJSFunction start len param_count flags
                                              context_id s6 of
                                         (function_ref, s7) \<Rightarrow>
                                           (Some function_ref, s7)))))))))"

definition functions_set :: "u32 \<Rightarrow> Tagged \<Rightarrow> deserializer \<Rightarrow> deserializer" where
  "functions_set i v s =
     (case table_set (functions_table s) i v of
        Some t \<Rightarrow> s\<lparr>functions_table := t\<rparr>
      | None \<Rightarrow> s\<lparr>out_of_bounds := True\<rparr>)"

definition classes_set :: "u32 \<Rightarrow> Tagged \<Rightarrow> deserializer \<Rightarrow> deserializer" where
  "classes_set i v s =
     (case table_set (classes_table s) i v of
        Some t \<Rightarrow> s\<lparr>classes_table := t\<rparr>
      | None \<Rightarrow> s\<lparr>out_of_bounds := True\<rparr>)"

definition DeserializeFunctions_body :: "host \<Rightarrow> deserializer \<Rightarrow> bool \<times> deserializer" where
  "DeserializeFunctions_body H s =
     (case read_function_record ''Malformed function'' s of
        (None, s1) \<Rightarrow> (False, s1)
      | (Some function_ref, s1) \<Rightarrow>
          (True, ReadFunctionPrototype H function_ref
                   (functions_set (current_function_count s1) function_ref s1)))"

definition DeserializeClasses_body :: "host \<Rightarrow> deserializer \<Rightarrow> bool \<times> deserializer" where
  "DeserializeClasses_body H s =
     (case read_function_record ''Malformed class'' s of
        (None, s1) \<Rightarrow> (False, s1)
      | (Some function_ref, s1) \<Rightarrow>
          (True, ReadFunctionPrototype H function_ref
                   (classes_set (current_class_count s1) function_ref s1)))"

lemma counts_le_SetFunctionPrototype:
  "counts_le s' s \<Longrightarrow> counts_le (snd (SetFunctionPrototype f p s')) s"
  by (simp add: SetFunctionPrototype_def Let_def counts_le_basic
      split: option.splits Cell.splits)

lemma counts_le_FunctionFlagsToFunctionKind:
  "counts_le s' s \<Longrightarrow> counts_le (snd (FunctionFlagsToFunctionKind flags s')) s"
  by (simp add: FunctionFlagsToFunctionKind_def Let_def counts_le_basic)

lemma counts_le_CreateJSFunction:
  "counts_le s' s \<Longrightarrow> counts_le (snd (CreateJSFunction a b c d e s')) s"
  by (simp add: CreateJSFunction_def split_def counts_le_basic
      counts_le_FunctionFlagsToFunctionKind split: option.splits Cell.splits)

lemma counts_le_ReadFunctionPrototype:
  "counts_le s' s \<Longrightarrow> counts_le (ReadFunctionPrototype H f s') s"
  by (simp add: ReadFunctionPrototype_def split_def counts_le_basic
      counts_le_SetFunctionPrototype split: option.splits)

lemma counts_le_read_function_record:
  "counts_le s' s \<Longrightarrow> counts_le (snd (read_function_record m s')) s"
  by (simp add: read_function_record_def split_def counts_le_basic counts_le_CreateJSFunction
      split: option.splits)

lemma counts_le_functions_set: "counts_le s' s \<Longrightarrow> counts_le (functions_set i v s') s"
  by (simp add: functions_set_def counts_le_basic split: option.splits)

lemma counts_le_classes_set: "counts_le s' s \<Longrightarrow> counts_le (classes_set i v s') s"
  by (simp add: classes_set_def counts_le_basic split: option.splits)

lemma counts_le_DeserializeFunctions_body:
  "counts_le s' s \<Longrightarrow> counts_le (snd (DeserializeFunctions_body H s')) s"
  by (simp add: DeserializeFunctions_body_def split_def counts_le_read_function_record
      counts_le_ReadFunctionPrototype counts_le_functions_set split: option.splits)

lemma counts_le_DeserializeClasses_body:
  "counts_le s' s \<Longrightarrow> counts_le (snd (DeserializeClasses_body H s')) s"
  by (simp add: DeserializeClasses_body_def split_def counts_le_read_function_record
      counts_le_ReadFunctionPrototype counts_le_classes_set split: option.splits)

lemma fill_measure_shrinks:
  fixes c n c' n' :: "'a::len word"
  assumes "c < n" and "n' \<le> n" and "c' = c"
  shows "unat n' - unat (c' + 1) < unat n - unat c"
  using assms loop_measure_shrinks[of c n n'] by simp

lemma DeserializeFunctions_loop_decreases:
  assumes "current_function_count s < function_count s"
    and "(b, y) = DeserializeFunctions_body H s"
  shows "unat (function_count y) - unat (current_function_count y + 1)
         < unat (function_count s) - unat (current_function_count s)"
proof -
  have "y = snd (DeserializeFunctions_body H s)" using assms(2) by (metis snd_conv)
  then have "counts_le y s" by (simp add: counts_le_DeserializeFunctions_body counts_le_refl)
  then have "function_count y \<le> function_count s"
    and "current_function_count y = current_function_count s"
    by (simp_all add: counts_le_def)
  with assms(1) show ?thesis by (intro fill_measure_shrinks)
qed

function DeserializeFunctions_loop :: "host \<Rightarrow> deserializer \<Rightarrow> deserializer" where
  "DeserializeFunctions_loop H s =
     (if current_function_count s < function_count s then
        (case DeserializeFunctions_body H s of
           (False, s1) \<Rightarrow> s1
         | (True, s1) \<Rightarrow>
             DeserializeFunctions_loop H
               (s1\<lparr>current_function_count := current_function_count s1 + 1\<rparr>))
      else s)"
  by pat_completeness auto
termination
  by (relation "measure (\<lambda>(H, s). unat (function_count s) - unat (current_function_count s))")
     (auto intro!: DeserializeFunctions_loop_decreases)

definition DeserializeFunctions :: "host \<Rightarrow> deserializer \<Rightarrow> deserializer" where
  "DeserializeFunctions H s =
     (case read_u32 s of
        (None, s1) \<Rightarrow> Throw ''Malformed function table'' s1
      | (Some n, s1) \<Rightarrow>
          (let s2 = s1\<lparr>function_count := n\<rparr>
           in if function_count s2 > kMaxItemCount H then Throw ''Malformed function table'' s2
              else DeserializeFunctions_loop H
                     (s2\<lparr>functions_table := NewFixedArray (function_count s2)\<rparr>)))"

lemma DeserializeClasses_loop_decreases:
  assumes "current_class_count s < class_count s"
    and "(b, y) = DeserializeClasses_body H s"
  shows "unat (class_count y) - unat (current_class_count y + 1)
         < unat (class_count s) - unat (current_class_count s)"
proof -
  have "y = snd (DeserializeClasses_body H s)" using assms(2) by (metis snd_conv)
  then have "counts_le y s" by (simp add: counts_le_DeserializeClasses_body counts_le_refl)
  then have "class_count y \<le> class_count s"
    and "current_class_count y = current_class_count s"
    by (simp_all add: counts_le_def)
  with assms(1) show ?thesis by (intro fill_measure_shrinks)
qed

function DeserializeClasses_loop :: "host \<Rightarrow> deserializer \<Rightarrow> deserializer" where
  "DeserializeClasses_loop H s =
     (if current_class_count s < class_count s then
        (case DeserializeClasses_body H s of
           (False, s1) \<Rightarrow> s1
         | (True, s1) \<Rightarrow>
             DeserializeClasses_loop H
               (s1\<lparr>current_class_count := current_class_count s1 + 1\<rparr>))
      else s)"
  by pat_completeness auto
termination
  by (relation "measure (\<lambda>(H, s). unat (class_count s) - unat (current_class_count s))")
     (auto intro!: DeserializeClasses_loop_decreases)

definition DeserializeClasses :: "host \<Rightarrow> deserializer \<Rightarrow> deserializer" where
  "DeserializeClasses H s =
     (case read_u32 s of
        (None, s1) \<Rightarrow> Throw ''Malformed class table'' s1
      | (Some n, s1) \<Rightarrow>
          (let s2 = s1\<lparr>class_count := n\<rparr>
           in if class_count s2 > kMaxItemCount H then Throw ''Malformed class table'' s2
              else DeserializeClasses_loop H
                     (s2\<lparr>classes_table := NewFixedArray (class_count s2)\<rparr>)))"

subsection \<open>Objects and arrays\<close>

definition objects_set :: "u32 \<Rightarrow> Tagged \<Rightarrow> deserializer \<Rightarrow> deserializer" where
  "objects_set i v s =
     (case table_set (objects_table s) i v of
        Some t \<Rightarrow> s\<lparr>objects_table := t\<rparr>
      | None \<Rightarrow> s\<lparr>out_of_bounds := True\<rparr>)"

definition arrays_set :: "u32 \<Rightarrow> Tagged \<Rightarrow> deserializer \<Rightarrow> deserializer" where
  "arrays_set i v s =
     (case table_set (arrays_table s) i v of
        Some t \<Rightarrow> s\<lparr>arrays_table := t\<rparr>
      | None \<Rightarrow> s\<lparr>out_of_bounds := True\<rparr>)"

text \<open>
  Reading \<open>n\<close> more values into the slots of a container from slot \<open>i\<close> on: the property
  loop of \<open>DeserializeObjects\<close> and the element loop of \<open>DeserializeArrays\<close>. (The elements
  kind of an array, and the representation kept in the descriptors, are left out.)
\<close>

fun read_slots :: "host \<Rightarrow> Tagged \<Rightarrow> nat \<Rightarrow> u32 \<Rightarrow> deserializer \<Rightarrow> deserializer" where
  "read_slots H container 0 i s = s"
| "read_slots H container (Suc n) i s =
     (case ReadValue H (Some container) i s of
        (v, s1) \<Rightarrow> read_slots H container n (i + 1) (container_set container i v s1))"

definition DeserializeObjects_body :: "host \<Rightarrow> deserializer \<Rightarrow> bool \<times> deserializer" where
  "DeserializeObjects_body H s =
     (case read_u32 s of
        (None, s1) \<Rightarrow> (False, Throw ''Malformed object'' s1)
      | (Some map_id, s1) \<Rightarrow>
          (if map_id \<ge> map_count s1 then (False, Throw ''Malformed object'' s1)
           else
             (case table_get (maps_table s1) map_id s1 of
                (raw_map, s2) \<Rightarrow>
                  (case cell_at s2 raw_map of
                     Some (MapCell f) \<Rightarrow>
                       (case allocate
                               (PropertyArrayCell
                                  (replicate (length (descriptors f)) TUndefined)) s2 of
                          (property_array, s3) \<Rightarrow>
                            (case allocate (JSObjectCell raw_map property_array)
                                    (read_slots H property_array (length (descriptors f)) 0
                                       s3) of
                               (object_ref, s4) \<Rightarrow>
                                 (True, objects_set (current_object_count s4) object_ref s4)))
                   | _ \<Rightarrow> (False, s2\<lparr>bad_cast := True\<rparr>)))))"

definition DeserializeArrays_body :: "host \<Rightarrow> deserializer \<Rightarrow> bool \<times> deserializer" where
  "DeserializeArrays_body H s =
     (case read_u32 s of
        (None, s1) \<Rightarrow> (False, Throw ''Malformed array'' s1)
      | (Some len, s1) \<Rightarrow>
          (if len > kMaxItemCount H then (False, Throw ''Malformed array'' s1)
           else
             (case allocate (FixedArrayCell (NewFixedArray len)) s1 of
                (elements_ref, s2) \<Rightarrow>
                  (case allocate (JSArrayCell elements_ref len)
                          (read_slots H elements_ref (unat len) 0 s2) of
                     (array_ref, s3) \<Rightarrow>
                       (True, arrays_set (current_array_count s3) array_ref s3)))))"

lemma counts_le_objects_set: "counts_le s' s \<Longrightarrow> counts_le (objects_set i v s') s"
  by (simp add: objects_set_def counts_le_basic split: option.splits)

lemma counts_le_arrays_set: "counts_le s' s \<Longrightarrow> counts_le (arrays_set i v s') s"
  by (simp add: arrays_set_def counts_le_basic split: option.splits)

lemma counts_le_read_slots:
  "counts_le s' s \<Longrightarrow> counts_le (read_slots H c n i s') s"
proof (induction n arbitrary: i s')
  case 0
  then show ?case by simp
next
  case (Suc n)
  show ?case
    using Suc.prems by (simp add: split_def counts_le_basic counts_le_ReadValue Suc.IH)
qed

lemma counts_le_DeserializeObjects_body:
  "counts_le s' s \<Longrightarrow> counts_le (snd (DeserializeObjects_body H s')) s"
  by (simp add: DeserializeObjects_body_def split_def counts_le_basic counts_le_read_slots
      counts_le_objects_set split: option.splits Cell.splits)

lemma counts_le_DeserializeArrays_body:
  "counts_le s' s \<Longrightarrow> counts_le (snd (DeserializeArrays_body H s')) s"
  by (simp add: DeserializeArrays_body_def split_def counts_le_basic counts_le_read_slots
      counts_le_arrays_set split: option.splits)

lemma DeserializeObjects_loop_decreases:
  assumes "current_object_count s < object_count s"
    and "(b, y) = DeserializeObjects_body H s"
  shows "unat (object_count y) - unat (current_object_count y + 1)
         < unat (object_count s) - unat (current_object_count s)"
proof -
  have "y = snd (DeserializeObjects_body H s)" using assms(2) by (metis snd_conv)
  then have "counts_le y s" by (simp add: counts_le_DeserializeObjects_body counts_le_refl)
  then have "object_count y \<le> object_count s"
    and "current_object_count y = current_object_count s"
    by (simp_all add: counts_le_def)
  with assms(1) show ?thesis by (intro fill_measure_shrinks)
qed

function DeserializeObjects_loop :: "host \<Rightarrow> deserializer \<Rightarrow> deserializer" where
  "DeserializeObjects_loop H s =
     (if current_object_count s < object_count s then
        (case DeserializeObjects_body H s of
           (False, s1) \<Rightarrow> s1
         | (True, s1) \<Rightarrow>
             DeserializeObjects_loop H
               (s1\<lparr>current_object_count := current_object_count s1 + 1\<rparr>))
      else s)"
  by pat_completeness auto
termination
  by (relation "measure (\<lambda>(H, s). unat (object_count s) - unat (current_object_count s))")
     (auto intro!: DeserializeObjects_loop_decreases)

definition DeserializeObjects :: "host \<Rightarrow> deserializer \<Rightarrow> deserializer" where
  "DeserializeObjects H s =
     (case read_u32 s of
        (None, s1) \<Rightarrow> Throw ''Malformed objects table'' s1
      | (Some n, s1) \<Rightarrow>
          (let s2 = s1\<lparr>object_count := n\<rparr>
           in if object_count s2 > kMaxItemCount H then Throw ''Malformed objects table'' s2
              else DeserializeObjects_loop H
                     (s2\<lparr>objects_table := NewFixedArray (object_count s2)\<rparr>)))"

lemma DeserializeArrays_loop_decreases:
  assumes "current_array_count s < array_count s"
    and "(b, y) = DeserializeArrays_body H s"
  shows "unat (array_count y) - unat (current_array_count y + 1)
         < unat (array_count s) - unat (current_array_count s)"
proof -
  have "y = snd (DeserializeArrays_body H s)" using assms(2) by (metis snd_conv)
  then have "counts_le y s" by (simp add: counts_le_DeserializeArrays_body counts_le_refl)
  then have "array_count y \<le> array_count s"
    and "current_array_count y = current_array_count s"
    by (simp_all add: counts_le_def)
  with assms(1) show ?thesis by (intro fill_measure_shrinks)
qed

function DeserializeArrays_loop :: "host \<Rightarrow> deserializer \<Rightarrow> deserializer" where
  "DeserializeArrays_loop H s =
     (if current_array_count s < array_count s then
        (case DeserializeArrays_body H s of
           (False, s1) \<Rightarrow> s1
         | (True, s1) \<Rightarrow>
             DeserializeArrays_loop H
               (s1\<lparr>current_array_count := current_array_count s1 + 1\<rparr>))
      else s)"
  by pat_completeness auto
termination
  by (relation "measure (\<lambda>(H, s). unat (array_count s) - unat (current_array_count s))")
     (auto intro!: DeserializeArrays_loop_decreases)

text \<open>The ceiling test of \<open>DeserializeArrays\<close> reads \<open>object_count_\<close>, as the source does.\<close>

definition DeserializeArrays :: "host \<Rightarrow> deserializer \<Rightarrow> deserializer" where
  "DeserializeArrays H s =
     (case read_u32 s of
        (None, s1) \<Rightarrow> Throw ''Malformed array table'' s1
      | (Some n, s1) \<Rightarrow>
          (let s2 = s1\<lparr>array_count := n\<rparr>
           in if object_count s2 > kMaxItemCount H then Throw ''Malformed array table'' s2
              else DeserializeArrays_loop H
                     (s2\<lparr>arrays_table := NewFixedArray (array_count s2)\<rparr>)))"

subsection \<open>Deferred references\<close>

text \<open>The \<open>switch\<close> of \<open>ProcessDeferredReferences\<close>; \<open>None\<close> is the return after \<open>Throw\<close>.\<close>

definition resolve_target ::
  "ValueType \<Rightarrow> u32 \<Rightarrow> deserializer \<Rightarrow> Tagged option \<times> deserializer" where
  "resolve_target target_type target_index s =
     (case target_type of
        FUNCTION_ID \<Rightarrow>
          (if target_index \<ge> function_count s
           then (None, Throw ''Invalid function reference'' s)
           else (case table_get (functions_table s) target_index s of
                   (target, s1) \<Rightarrow> (Some target, s1)))
      | CLASS_ID \<Rightarrow>
          (if target_index \<ge> class_count s
           then (None, Throw ''Invalid class reference'' s)
           else (case table_get (classes_table s) target_index s of
                   (target, s1) \<Rightarrow> (Some target, s1)))
      | ARRAY_ID \<Rightarrow>
          (if target_index \<ge> array_count s
           then (None, Throw ''Invalid array reference'' s)
           else (case table_get (arrays_table s) target_index s of
                   (target, s1) \<Rightarrow> (Some target, s1)))
      | OBJECT_ID \<Rightarrow>
          (if target_index \<ge> object_count s
           then (None, Throw ''Invalid object reference'' s)
           else (case table_get (objects_table s) target_index s of
                   (target, s1) \<Rightarrow> (Some target, s1)))
      | _ \<Rightarrow> (None, s\<lparr>unreachable := True\<rparr>))"

text \<open>
  The loop over the pending references, taken from the list as it was when the loop
  started; \<open>False\<close> is the return after \<open>Throw\<close> or the abort.
\<close>

fun ProcessDeferredReferences_loop ::
  "(Tagged \<times> u32 \<times> ValueType \<times> u32) list \<Rightarrow> deserializer \<Rightarrow> bool \<times> deserializer" where
  "ProcessDeferredReferences_loop [] s = (True, s)"
| "ProcessDeferredReferences_loop ((container, index, target_type, target_index) # rest) s =
     (case resolve_target target_type target_index s of
        (None, s1) \<Rightarrow> (False, s1)
      | (Some target, s1) \<Rightarrow>
          (case cell_at s1 container of
             Some (PropertyArrayCell vs) \<Rightarrow>
               ProcessDeferredReferences_loop rest (container_set container index target s1)
           | Some (ContextCell t names slots) \<Rightarrow>
               ProcessDeferredReferences_loop rest (container_set container index target s1)
           | Some (FixedArrayCell vs) \<Rightarrow>
               ProcessDeferredReferences_loop rest (container_set container index target s1)
           | Some (JSFunctionCell ff) \<Rightarrow>
               (case SetFunctionPrototype container target s1 of
                  (ok, s2) \<Rightarrow>
                    if ok then ProcessDeferredReferences_loop rest s2
                    else (False, Throw ''Can't reuse function prototype'' s2))
           | Some (MapCell f) \<Rightarrow>
               ProcessDeferredReferences_loop rest (set_prototype container target s1)
           | _ \<Rightarrow> (False, s1\<lparr>unreachable := True\<rparr>)))"

definition ProcessDeferredReferences :: "deserializer \<Rightarrow> deserializer" where
  "ProcessDeferredReferences s =
     (if has_error s then s
      else (case ProcessDeferredReferences_loop (deferred_references s) s of
              (False, s1) \<Rightarrow> s1
            | (True, s1) \<Rightarrow> s1\<lparr>deferred_references := []\<rparr>))"

subsection \<open>Exports\<close>

definition dictionary_at :: "deserializer \<Rightarrow> nat \<Rightarrow> dictionary" where
  "dictionary_at s d =
     (if d < length (dictionaries s) then dictionaries s ! d
      else \<lparr>bindings = [], capacity = 0\<rparr>)"

definition EnsureCapacity :: "nat \<Rightarrow> nat \<Rightarrow> deserializer \<Rightarrow> nat \<times> deserializer" where
  "EnsureCapacity d n s =
     (if length (bindings (dictionary_at s d)) + n \<le> capacity (dictionary_at s d) then (d, s)
      else (length (dictionaries s),
            s\<lparr>dictionaries := dictionaries s @
                 [\<lparr>bindings = bindings (dictionary_at s d),
                   capacity = 2 * (length (bindings (dictionary_at s d)) + n)\<rparr>]\<rparr>))"

definition dictionary_Add :: "nat \<Rightarrow> Tagged \<Rightarrow> Tagged \<Rightarrow> deserializer \<Rightarrow> deserializer" where
  "dictionary_Add d name v s =
     s\<lparr>dictionaries := (dictionaries s)
          [d := (dictionary_at s d)\<lparr>bindings := bindings (dictionary_at s d) @ [(name, v)]\<rparr>]\<rparr>"

text \<open>
  The loop of \<open>DeserializeExports\<close>, \<open>n\<close> exports still to read, adding to dictionary
  \<open>d\<close>; \<open>False\<close> is the return at \<open>has_error()\<close>.
\<close>

fun DeserializeExports_loop ::
  "host \<Rightarrow> nat \<Rightarrow> nat \<Rightarrow> deserializer \<Rightarrow> bool \<times> deserializer" where
  "DeserializeExports_loop H 0 d s = (True, s)"
| "DeserializeExports_loop H (Suc n) d s =
     (case ReadString True s of
        (export_name, s1) \<Rightarrow>
          (case ReadValue H None 0 s1 of
             (export_value, s2) \<Rightarrow>
               if has_error s2 then (False, s2)
               else DeserializeExports_loop H n d
                      (dictionary_Add d export_name export_value s2)))"

definition DeserializeExports :: "host \<Rightarrow> deserializer \<Rightarrow> deserializer" where
  "DeserializeExports H s =
     (case read_u32 s of
        (None, s1) \<Rightarrow> Throw ''Malformed export table'' s1
      | (Some n, s1) \<Rightarrow>
          (if n > kMaxItemCount H then Throw ''Malformed export table'' s1
           else
             (case EnsureCapacity (global_dictionary s1)
                     (length (bindings (dictionary_at s1 (global_dictionary s1))) + unat n) s1 of
                (d, s2) \<Rightarrow>
                  (case DeserializeExports_loop H (unat n) d s2 of
                     (False, s3) \<Rightarrow> s3
                   | (True, s3) \<Rightarrow> s3\<lparr>global_dictionary := d\<rparr>))))"

subsection \<open>The whole snapshot\<close>

definition DeserializeSnapshot :: "host \<Rightarrow> deserializer \<Rightarrow> bool \<times> deserializer" where
  "DeserializeSnapshot H s =
     (case ReadRawBytes 4 (input s) of
        None \<Rightarrow> (False, Throw ''Invalid magic number'' (s\<lparr>deferred_references := []\<rparr>))
      | Some (magic_bytes, rest) \<Rightarrow>
          (if magic_bytes \<noteq> kMagicNumber
           then (False, Throw ''Invalid magic number''
                          (s\<lparr>deferred_references := [], input := rest\<rparr>))
           else
             (let s1 = DeserializeExports H
                         (ProcessDeferredReferences
                            (DeserializeClasses H
                               (DeserializeObjects H
                                  (DeserializeArrays H
                                     (DeserializeFunctions H
                                        (DeserializeContexts H
                                           (DeserializeMaps H
                                              (DeserializeStrings H
                                                 (s\<lparr>deferred_references := [],
                                                    input := rest\<rparr>)))))))))
              in (\<not> has_error s1, s1))))"

text \<open>
  Bytes after the export table are a script, compiled and run by the host; whether that
  succeeds is the host's answer.
\<close>

definition DeserializeScript :: "host \<Rightarrow> deserializer \<Rightarrow> bool \<times> deserializer" where
  "DeserializeScript H s =
     (if length (input s) > 0 \<and> length (input s) < v8_String_kMaxLength H \<and>
         \<not> script_succeeds H (input s)
      then (False, s)
      else (\<not> has_error s, s))"

definition Deserialize :: "host \<Rightarrow> deserializer \<Rightarrow> bool \<times> deserializer" where
  "Deserialize H s =
     (if deserialized s then (False, Throw ''Can't reuse WebSnapshotDeserializer'' s)
      else
        (case DeserializeSnapshot H (s\<lparr>deserialized := True\<rparr>) of
           (False, s1) \<Rightarrow> (False, s1)
         | (True, s1) \<Rightarrow>
             (case DeserializeScript H s1 of
                (False, s2) \<Rightarrow> (False, s2)
              | (True, s2) \<Rightarrow> (True, s2))))"


section \<open>Example inputs\<close>

text \<open>
  A host for the examples: the item ceiling and the descriptor ceiling of a 64-bit
  build, and host operations that always succeed.
\<close>

definition example_host :: host where
  "example_host =
     \<lparr>kMaxItemCount = 0xFFFFFD, kMaxNumberOfDescriptors = 1020,
      v8_String_kMaxLength = 536870888,
      FlagsFromString_succeeds = (\<lambda>f. True),
      JSRegExp_New_succeeds = (\<lambda>p f. True),
      script_succeeds = (\<lambda>bs. True)\<rparr>"

definition empty_global :: dictionary where
  "empty_global = \<lparr>bindings = [], capacity = 8\<rparr>"

text \<open>An array table that declares one array more than the item ceiling and ends there.\<close>

definition oversized_array_table :: "byte list" where
  "oversized_array_table = [0xFE, 0xFF, 0xFF, 0x00]"

text \<open>An array table that declares two arrays and ends there.\<close>

definition truncated_array_table :: "byte list" where
  "truncated_array_table = [2, 0, 0, 0]"

text \<open>
  A string table with the one string \<open>x\<close>, then a shape table of two shapes: the first
  without properties, the second with the one property \<open>x\<close>.
\<close>

definition second_shape_record :: "byte list" where
  "second_shape_record = [0, 0, 0, 0,  0, 0, 0, 0,  1, 0, 0, 0,  0, 0, 0, 0]"

definition two_shape_tables :: "byte list" where
  "two_shape_tables =
     [1, 0, 0, 0,  1, 0, 0, 0, 0x78,
      2, 0, 0, 0,  0, 0, 0, 0,  0, 0, 0, 0,  0, 0, 0, 0] @ second_shape_record"

definition example_isolate :: isolate where
  "example_isolate = \<lparr>initial_object_prototype = HeapPtr 6, String_kMaxLength = 536870888\<rparr>"

text \<open>The snapshot of no exports: the magic number and eight counts of zero.\<close>

definition empty_snapshot :: "byte list" where
  "empty_snapshot =
     [0x2B, 0x2B, 0x2B, 0x3B,
      0, 0, 0, 0,  0, 0, 0, 0,  0, 0, 0, 0,  0, 0, 0, 0,
      0, 0, 0, 0,  0, 0, 0, 0,  0, 0, 0, 0,  0, 0, 0, 0]"





text \<open>
  The heap of the scenario with the exports \<open>a = 1\<close> and \<open>b = {x: "hello"}\<close>: the two export
  names, the wrapper object that running the script of \<open>a\<close> gives for the number 1, the
  key \<open>x\<close>, the string \<open>hello\<close>, the object \<open>b\<close>, the default prototype of objects, and
  null.
\<close>

definition fixture_heap :: "HeapObject list" where
  "fixture_heap =
     [JSString True [0x61],
      JSString True [0x62],
      JSPrimitiveWrapper (Smi 1),
      JSString True [0x78],
      JSString True [0x68, 0x65, 0x6C, 0x6C, 0x6F],
      JSObject \<lparr>object_map = \<lparr>map_identity = 0,
                   own_descriptors = [\<lparr>GetKey = HeapPtr 3,
                      GetDetails = \<lparr>location_is_kField = True, IsReadOnly = False,
                                     IsConfigurable = True, IsEnumerable = True\<rparr>\<rparr>],
                   map_prototype = HeapPtr 6\<rparr>,
                HasFastProperties = True, property_values = [HeapPtr 4]\<rparr>,
      JSObject \<lparr>object_map = \<lparr>map_identity = 1, own_descriptors = [],
                   map_prototype = HeapPtr 7\<rparr>,
                HasFastProperties = True, property_values = []\<rparr>,
      Oddball kNull]"

definition fixture_exports :: "(Object \<times> Object option) list" where
  "fixture_exports = [(HeapPtr 0, Some (HeapPtr 2)), (HeapPtr 1, Some (HeapPtr 5))]"

text \<open>Reading a binding of a dictionary and a property of a decoded object.\<close>

definition global_binding :: "deserializer \<Rightarrow> byte list \<Rightarrow> Tagged option" where
  "global_binding s name =
     map_of (bindings (dictionary_at s (global_dictionary s))) (TString name)"

definition GetProperty :: "deserializer \<Rightarrow> Tagged \<Rightarrow> byte list \<Rightarrow> Tagged option" where
  "GetProperty s object_ref name =
     (case cell_at s object_ref of
        Some (JSObjectCell m properties) \<Rightarrow>
          (case (cell_at s m, cell_at s properties) of
             (Some (MapCell f), Some (PropertyArrayCell vs)) \<Rightarrow>
               (case index_of (map fst (descriptors f)) (TString name) of
                  Some i \<Rightarrow> (if i < length vs then Some (vs ! i) else None)
                | None \<Rightarrow> None)
           | _ \<Rightarrow> None)
      | _ \<Rightarrow> None)"

text \<open>The serializer of the scenario after discovery, after the exports, and at the end.\<close>

definition fixture_after_discovery :: serializer where
  "fixture_after_discovery =
     (new_serializer fixture_heap)\<lparr>object_ids := [HeapPtr 5], objects_list := [HeapPtr 5]\<rparr>"

definition fixture_after_exports :: serializer where
  "fixture_after_exports =
     fixture_after_discovery
       \<lparr>string_serializer := [1, 0, 0, 0, 0x61,  1, 0, 0, 0, 0x62],
        export_serializer :=
          [0, 0, 0, 0,  4, 0, 0, 0,  2,   1, 0, 0, 0,  8, 0, 0, 0,  0, 0, 0, 0],
        string_ids := [HeapPtr 0, HeapPtr 1],
        export_count := 2\<rparr>"

definition fixture_final :: serializer where
  "fixture_final =
     fixture_after_exports
       \<lparr>string_serializer :=
          [1, 0, 0, 0, 0x61,  1, 0, 0, 0, 0x62,  1, 0, 0, 0, 0x78,
           5, 0, 0, 0, 0x68, 0x65, 0x6C, 0x6C, 0x6F],
        map_serializer := [0, 0, 0, 0,  0, 0, 0, 0,  1, 0, 0, 0,  2, 0, 0, 0],
        object_serializer := [0, 0, 0, 0,  6, 0, 0, 0,  3, 0, 0, 0],
        string_ids := [HeapPtr 0, HeapPtr 1, HeapPtr 3, HeapPtr 4],
        map_ids := [\<lparr>map_identity = 0,
                    own_descriptors = [\<lparr>GetKey = HeapPtr 3,
                       GetDetails = \<lparr>location_is_kField = True, IsReadOnly = False,
                                      IsConfigurable = True, IsEnumerable = True\<rparr>\<rparr>],
                    map_prototype = HeapPtr 6\<rparr>]\<rparr>"

text \<open>
  The snapshot of the scenario: the magic number; four strings (\<open>a\<close>, \<open>b\<close>, \<open>x\<close>,
  \<open>hello\<close>); one shape (default attributes, default prototype, one property named by
  string 2); no contexts, functions or arrays; one object (shape 0, its property the
  string 3); no classes; two exports (string 0 bound to the integer 1, string 1 bound to
  object 0).
\<close>

definition fixture_snapshot :: "byte list" where
  "fixture_snapshot =
     [0x2B, 0x2B, 0x2B, 0x3B,
      4, 0, 0, 0,
      1, 0, 0, 0, 0x61,  1, 0, 0, 0, 0x62,  1, 0, 0, 0, 0x78,
      5, 0, 0, 0, 0x68, 0x65, 0x6C, 0x6C, 0x6F,
      1, 0, 0, 0,
      0, 0, 0, 0,  0, 0, 0, 0,  1, 0, 0, 0,  2, 0, 0, 0,
      0, 0, 0, 0,
      0, 0, 0, 0,
      0, 0, 0, 0,
      1, 0, 0, 0,
      0, 0, 0, 0,  6, 0, 0, 0,  3, 0, 0, 0,
      0, 0, 0, 0,
      2, 0, 0, 0,
      0, 0, 0, 0,  4, 0, 0, 0,  2,
      1, 0, 0, 0,  8, 0, 0, 0,  0, 0, 0, 0]"

text \<open>
  The deserializer of the scenario after the magic number, after the string table, after
  the shape table, after the (empty) context, function and array tables, after the
  object table, and at the end.
\<close>

definition fixture_decoding_start :: deserializer where
  "fixture_decoding_start =
     (new_deserializer (drop 4 fixture_snapshot) empty_global)\<lparr>deserialized := True\<rparr>"

definition fixture_decoded_strings :: deserializer where
  "fixture_decoded_strings =
     fixture_decoding_start
       \<lparr>input := drop 32 fixture_snapshot,
        string_count := 4,
        strings_table := [TString [0x61], TString [0x62], TString [0x78],
                          TString [0x68, 0x65, 0x6C, 0x6C, 0x6F]]\<rparr>"

definition fixture_decoded_shapes :: deserializer where
  "fixture_decoded_shapes =
     fixture_decoded_strings
       \<lparr>input := drop 52 fixture_snapshot,
        map_count := 1,
        maps_table := [TRef 1],
        cells := [empty_map_cell,
                  MapCell \<lparr>descriptors = [(TString [0x78], PropertyAttributes_NONE)],
                           prototype = TInitialObjectPrototype,
                           constructor_or_back_pointer = TNull,
                           is_prototype_map = False\<rparr>]\<rparr>"

definition fixture_decoded_arrays :: deserializer where
  "fixture_decoded_arrays = fixture_decoded_shapes\<lparr>input := drop 64 fixture_snapshot\<rparr>"

definition fixture_decoded_objects :: deserializer where
  "fixture_decoded_objects =
     fixture_decoded_arrays
       \<lparr>input := drop 80 fixture_snapshot,
        object_count := 1,
        current_object_count := 1,
        objects_table := [TRef 3],
        cells := cells fixture_decoded_shapes @
                 [PropertyArrayCell [TString [0x68, 0x65, 0x6C, 0x6C, 0x6F]],
                  JSObjectCell (TRef 1) (TRef 2)]\<rparr>"

definition fixture_decoded :: deserializer where
  "fixture_decoded =
     fixture_decoded_objects
       \<lparr>input := [],
        dictionaries := [\<lparr>bindings = [(TString [0x61], TSmi 1), (TString [0x62], TRef 3)],
                          capacity = 8\<rparr>]\<rparr>"



text \<open>
  A snapshot with the two strings \<open>a\<close> and \<open>b\<close>, no shapes, contexts, functions, arrays,
  objects or classes, and an export table that declares two exports: \<open>a\<close> with the
  integer 1, and \<open>b\<close>, after whose name the buffer ends.
\<close>

definition malformed_export_snapshot :: "byte list" where
  "malformed_export_snapshot =
     [0x2B, 0x2B, 0x2B, 0x3B,
      2, 0, 0, 0,  1, 0, 0, 0, 0x61,  1, 0, 0, 0, 0x62,
      0, 0, 0, 0,  0, 0, 0, 0,  0, 0, 0, 0,  0, 0, 0, 0,  0, 0, 0, 0,  0, 0, 0, 0,
      2, 0, 0, 0,
      0, 0, 0, 0,  4, 0, 0, 0,  2,
      1, 0, 0, 0]"

text \<open>The deserializer of that snapshot when it reaches the export table, and at the end.\<close>

definition malformed_export_tables :: deserializer where
  "malformed_export_tables =
     (new_deserializer (drop 42 malformed_export_snapshot) empty_global)
       \<lparr>deserialized := True, string_count := 2,
        strings_table := [TString [0x61], TString [0x62]]\<rparr>"

definition malformed_export_decoded :: deserializer where
  "malformed_export_decoded =
     malformed_export_tables
       \<lparr>error_message := Some ''Malformed variable'', input := [], string_count := 0,
        dictionaries := [\<lparr>bindings = [(TString [0x61], TSmi 1)], capacity = 8\<rparr>]\<rparr>"

(*DEFS_END*)

section \<open>Properties of the flag word\<close>

lemmas bitfield_defs =
  AsyncFunctionBitField_def GeneratorFunctionBitField_def ArrowFunctionBitField_def
  MethodBitField_def StaticBitField_def ClassConstructorBitField_def
  DefaultConstructorBitField_def DerivedConstructorBitField_def

lemma flags_kind_roundtrip_all: "\<forall>k \<in> set supported_kinds. flags_kind (kind_flags k) = k"
  by code_simp

lemma flags_kind_roundtrip: "supported_kind k \<Longrightarrow> flags_kind (kind_flags k) = k"
  using flags_kind_roundtrip_all by (simp only: supported_kind_def)

lemma supported_kinds_valid: "kInvalid \<notin> set supported_kinds"
  by code_simp

lemma supported_kind_valid: "supported_kind k \<Longrightarrow> k \<noteq> kInvalid"
  using supported_kinds_valid by (auto simp only: supported_kind_def)

lemma flags_kind_low_words:
  "\<forall>n \<in> set [0..<32].
     (flags_kind (of_nat n) \<noteq> kInvalid) = (of_nat n \<in> set accepted_flags)"
  by code_simp

lemma flags_kind_constructor_words:
  "\<forall>n \<in> set [0..<8].
     (flags_kind (push_bit 5 (of_nat n)) \<noteq> kInvalid) =
     (push_bit 5 (of_nat n) \<in> set accepted_flags)"
  by code_simp

lemma mask_enum:
  fixes w :: u32
  assumes "w AND mask k = w"
  shows "\<exists>n \<in> set [0..<2 ^ k]. w = of_nat n"
proof -
  from assms have "uint w < 2 ^ k" by (simp only: mask_eq_iff)
  then have "int (unat w) < 2 ^ k" by (simp only: of_nat_unat)
  then have "unat w < 2 ^ k" by (metis of_nat_less_iff of_nat_numeral of_nat_power)
  then have "unat w \<in> {0..<2 ^ k}" by simp
  then have mem: "unat w \<in> set [0..<2 ^ k]" by (simp only: set_upt)
  have eq: "w = of_nat (unat w)" by simp
  show ?thesis by (rule bexI[where x = "unat w" and P = "\<lambda>n. w = of_nat n", OF eq mem])
qed

lemma IsFunctionOrMethod_enum:
  assumes "IsFunctionOrMethod w"
  shows "\<exists>n \<in> set [0..<32]. w = of_nat n"
proof -
  have "(31 :: u32) = mask 5" by (simp add: mask_eq_exp_minus_1)
  with assms have "w AND mask 5 = w"
    by (simp add: IsFunctionOrMethod_def bf_kMask_def bitfield_defs)
  from mask_enum[OF this] show ?thesis by simp
qed

lemma IsConstructor_enum:
  assumes "IsConstructor w"
  shows "\<exists>n \<in> set [0..<8]. w = push_bit 5 (of_nat n)"
proof -
  from assms have m: "w AND 224 = w"
    by (simp add: IsConstructor_def bf_kMask_def bitfield_defs)
  have "take_bit 5 w = take_bit 5 (w AND 224)" using m by simp
  also have "\<dots> = take_bit 5 w AND take_bit 5 224" by (simp only: take_bit_and)
  also have "\<dots> = 0" by simp
  finally have low: "take_bit 5 w = 0" .
  have "drop_bit 5 w = drop_bit 5 (w AND 224)" using m by simp
  also have "\<dots> = drop_bit 5 w AND drop_bit 5 224" by (simp only: drop_bit_and)
  also have "\<dots> = drop_bit 5 w AND mask 3" by (simp add: mask_eq_exp_minus_1)
  finally have "drop_bit 5 w AND mask 3 = drop_bit 5 w" by simp
  from mask_enum[OF this] obtain n where n: "n \<in> set [0..<8]" "drop_bit 5 w = of_nat n"
    by auto
  have "w = push_bit 5 (drop_bit 5 w) + take_bit 5 w" by (simp only: bits_ident)
  with low n(2) have "w = push_bit 5 (of_nat n)" by simp
  with n(1) show ?thesis by blast
qed

lemma flags_kind_valid_iff:
  "(flags_kind w \<noteq> kInvalid) = (w \<in> set accepted_flags)"
proof (cases "IsFunctionOrMethod w")
  case True
  then obtain n where "n \<in> set [0..<32]" "w = of_nat n"
    using IsFunctionOrMethod_enum by blast
  then show ?thesis using flags_kind_low_words by blast
next
  case nfm: False
  show ?thesis
  proof (cases "IsConstructor w")
    case True
    then obtain n where "n \<in> set [0..<8]" "w = push_bit 5 (of_nat n)"
      using IsConstructor_enum by blast
    then show ?thesis using flags_kind_constructor_words by blast
  next
    case False
    with nfm have "flags_kind w = kInvalid" by (simp add: flags_kind_def)
    moreover have "w \<notin> set accepted_flags"
    proof
      assume "w \<in> set accepted_flags"
      then have "IsFunctionOrMethod w \<or> IsConstructor w"
        by (auto simp: accepted_flags_def IsFunctionOrMethod_def IsConstructor_def
            bf_kMask_def bf_decode_def bitfield_defs)
      with nfm False show False by simp
    qed
    ultimately show ?thesis by simp
  qed
qed

lemma has_error_base_Throw: "has_error (base_Throw m s)"
  by (simp add: has_error_def base_Throw_def)

lemma supported_encodings:
  "map kind_flags supported_kinds = [0, 4, 2, 1, 5, 3, 0x20, 0x60, 8, 9]"
  by code_simp

lemma accepted_flags_split:
  "(w \<in> set accepted_flags) =
   (w \<in> set [0x10, 0x11, 0x14, 0x15] \<or> w \<in> set (map kind_flags supported_kinds) \<or>
    w = 0xA0 \<or> w = 0xE0)"
  unfolding supported_encodings by (auto simp: accepted_flags_def)

lemma derived_constructor_words:
  "flags_kind 0xA0 = kDerivedConstructor \<and> flags_kind 0xE0 = kDefaultDerivedConstructor"
  by code_simp

text \<open>
  C6 (as amended). Encoding one of the ten supported kinds and decoding the flag word
  gives the kind back, and neither step records an error; the ten encodings are 0, 4, 2,
  1, 5, 3, 0x20, 0x60, 8 and 9. For every flag word other than the four that set the
  static bit without the method bit (0x10, 0x11, 0x14, 0x15), decoding records an error,
  and then returns the invalid kind rather than some default kind, exactly when the word
  is neither one of the ten encodings nor 0xA0 or 0xE0; those two the constructor table
  of the decoder decodes as derived constructor and default derived constructor.
\<close>

theorem C6_flag_word_roundtrip_and_rejection:
  "(\<forall>k \<in> set supported_kinds. \<forall>s :: base_state. \<not> has_error s \<longrightarrow>
      (case FunctionKindToFunctionFlags k s of (flags, s1) \<Rightarrow>
         \<not> has_error s1 \<and> FunctionFlagsToFunctionKind flags s1 = (k, s1))) \<and>
   map kind_flags supported_kinds = [0, 4, 2, 1, 5, 3, 0x20, 0x60, 8, 9] \<and>
   (\<forall>w. \<forall>s :: base_state. \<not> has_error s \<longrightarrow> w \<notin> set [0x10, 0x11, 0x14, 0x15] \<longrightarrow>
      (case FunctionFlagsToFunctionKind w s of (k, s1) \<Rightarrow>
         has_error s1 = (w \<notin> set (map kind_flags supported_kinds) \<and> w \<noteq> 0xA0 \<and> w \<noteq> 0xE0) \<and>
         (has_error s1 \<longrightarrow> k = kInvalid))) \<and>
   (\<forall>s :: base_state. \<not> has_error s \<longrightarrow>
      FunctionFlagsToFunctionKind 0xA0 s = (kDerivedConstructor, s) \<and>
      FunctionFlagsToFunctionKind 0xE0 s = (kDefaultDerivedConstructor, s))"
proof (intro conjI ballI allI impI)
  fix k and s :: base_state
  assume k: "k \<in> set supported_kinds" and s: "\<not> has_error s"
  from k have sk: "supported_kind k" by (simp add: supported_kind_def)
  show "case FunctionKindToFunctionFlags k s of (flags, s1) \<Rightarrow>
          \<not> has_error s1 \<and> FunctionFlagsToFunctionKind flags s1 = (k, s1)"
    using sk s flags_kind_roundtrip[OF sk] supported_kind_valid[OF sk]
    by (simp add: FunctionKindToFunctionFlags_def FunctionFlagsToFunctionKind_def)
next
  show "map kind_flags supported_kinds = [0, 4, 2, 1, 5, 3, 0x20, 0x60, 8, 9]"
    by (rule supported_encodings)
next
  fix w :: u32 and s :: base_state
  assume s: "\<not> has_error s" and w: "w \<notin> set [0x10, 0x11, 0x14, 0x15]"
  have "(flags_kind w \<noteq> kInvalid) =
        (w \<in> set (map kind_flags supported_kinds) \<or> w = 0xA0 \<or> w = 0xE0)"
    using w flags_kind_valid_iff[of w] accepted_flags_split[of w] by blast
  then show "case FunctionFlagsToFunctionKind w s of (k, s1) \<Rightarrow>
         has_error s1 = (w \<notin> set (map kind_flags supported_kinds) \<and> w \<noteq> 0xA0 \<and> w \<noteq> 0xE0) \<and>
         (has_error s1 \<longrightarrow> k = kInvalid)"
    using s by (auto simp: FunctionFlagsToFunctionKind_def Let_def has_error_base_Throw)
next
  fix s :: base_state
  assume "\<not> has_error s"
  show "FunctionFlagsToFunctionKind 0xA0 s = (kDerivedConstructor, s)"
    using derived_constructor_words by (simp add: FunctionFlagsToFunctionKind_def)
  show "FunctionFlagsToFunctionKind 0xE0 s = (kDefaultDerivedConstructor, s)"
    using derived_constructor_words by (simp add: FunctionFlagsToFunctionKind_def)
qed

theorem C6_flag_word_witness:
  "kAsyncConciseMethod \<in> set supported_kinds \<and>
   \<not> has_error \<lparr>error_message = None\<rparr> \<and>
   FunctionKindToFunctionFlags kAsyncConciseMethod \<lparr>error_message = None\<rparr> =
     (9, \<lparr>error_message = None\<rparr>) \<and>
   FunctionFlagsToFunctionKind 9 \<lparr>error_message = None\<rparr> =
     (kAsyncConciseMethod, \<lparr>error_message = None\<rparr>) \<and>
   (0x18 :: u32) \<notin> set [0x10, 0x11, 0x14, 0x15] \<and>
   (0x18 :: u32) \<notin> set (map kind_flags supported_kinds) \<and>
   has_error (snd (FunctionFlagsToFunctionKind 0x18 \<lparr>error_message = None\<rparr>)) \<and>
   fst (FunctionFlagsToFunctionKind 0x18 \<lparr>error_message = None\<rparr>) = kInvalid \<and>
   FunctionFlagsToFunctionKind 0xA0 \<lparr>error_message = None\<rparr> =
     (kDerivedConstructor, \<lparr>error_message = None\<rparr>)"
proof -
  have k: "kAsyncConciseMethod \<in> set supported_kinds" by code_simp
  have s: "\<not> has_error \<lparr>error_message = None\<rparr>" by (simp add: has_error_def)
  have f: "FunctionKindToFunctionFlags kAsyncConciseMethod \<lparr>error_message = None\<rparr> =
     (9, \<lparr>error_message = None\<rparr>)"
    by code_simp
  have n: "(0x18 :: u32) \<notin> set [0x10, 0x11, 0x14, 0x15]" by simp
  have e: "(0x18 :: u32) \<notin> set (map kind_flags supported_kinds)"
    unfolding supported_encodings by simp
  note t = C6_flag_word_roundtrip_and_rejection
  from t[THEN conjunct1, rule_format, OF k s] f
  have r: "FunctionFlagsToFunctionKind 9 \<lparr>error_message = None\<rparr> =
     (kAsyncConciseMethod, \<lparr>error_message = None\<rparr>)" by simp
  from t[THEN conjunct2, THEN conjunct2, THEN conjunct1, rule_format, OF s n] e
  have x: "has_error (snd (FunctionFlagsToFunctionKind 0x18 \<lparr>error_message = None\<rparr>)) \<and>
     fst (FunctionFlagsToFunctionKind 0x18 \<lparr>error_message = None\<rparr>) = kInvalid"
    by (cases "FunctionFlagsToFunctionKind 0x18 \<lparr>error_message = None\<rparr>") simp
  from t[THEN conjunct2, THEN conjunct2, THEN conjunct2, rule_format, OF s]
  have d: "FunctionFlagsToFunctionKind 0xA0 \<lparr>error_message = None\<rparr> =
     (kDerivedConstructor, \<lparr>error_message = None\<rparr>)" by blast
  show ?thesis using k s f n e r x d by blast
qed

text \<open>
  The claim as stated fails: the flag word 0xA0 (class constructor with the derived bit)
  is not the encoding of any supported kind, and it is decoded to the derived
  constructor kind without an error.
\<close>

theorem C6_unsupported_word_decodes_counterexample:
  "(0xA0 :: u32) \<notin> set (map kind_flags supported_kinds) \<and>
   FunctionFlagsToFunctionKind 0xA0 \<lparr>error_message = None\<rparr> =
     (kDerivedConstructor, \<lparr>error_message = None\<rparr>)"
  by code_simp

section \<open>The item ceiling of the array table\<close>

lemma length_NewFixedArray: "length (NewFixedArray n) = unat n"
  by (simp add: NewFixedArray_def)

text \<open>
  C3 (the claim holds of the intent, not of the code). \<open>DeserializeArrays\<close> compares
  \<open>object_count_\<close>, still zero when the array table is read, with the ceiling instead
  of the count it has just read. On an array table that declares 16777214 arrays, one
  more than the ceiling 16777213, and ends there, the table is allocated with 16777214
  slots, and the only error is the later one for the missing first array. The string
  table, given the same bytes, is refused before any allocation.
\<close>

theorem C3_array_count_escapes_ceiling:
  "kMaxItemCount example_host = 16777213 \<and>
   array_count (DeserializeArrays example_host
      (new_deserializer oversized_array_table empty_global)) = 16777214 \<and>
   length (arrays_table (DeserializeArrays example_host
      (new_deserializer oversized_array_table empty_global))) = 16777214 \<and>
   error_message (DeserializeArrays example_host
      (new_deserializer oversized_array_table empty_global)) = Some ''Malformed array'' \<and>
   strings_table (DeserializeStrings example_host
      (new_deserializer oversized_array_table empty_global)) = [] \<and>
   error_message (DeserializeStrings example_host
      (new_deserializer oversized_array_table empty_global)) = Some ''Malformed string table''"
  by (simp add: DeserializeArrays_def DeserializeStrings_def new_deserializer_def
      oversized_array_table_def read_u32_def example_host_def DeserializeArrays_body_def
      Throw_def base_Throw_def Let_def length_NewFixedArray)

section \<open>What \<open>Throw\<close> resets\<close>

text \<open>
  C4 (the claim holds of the intent, not of the code). The deserializer's \<open>Throw\<close> sets
  six of the seven table counts to zero and moves the cursor to the end of the buffer;
  it leaves \<open>array_count_\<close> as it is. After an array table that declares two arrays and
  ends there, an error is recorded and the array count is still 2.
\<close>

theorem C4_Throw_keeps_array_count:
  "array_count (Throw message s) = array_count s \<and>
   string_count (Throw message s) = 0 \<and> map_count (Throw message s) = 0 \<and>
   context_count (Throw message s) = 0 \<and> function_count (Throw message s) = 0 \<and>
   class_count (Throw message s) = 0 \<and> object_count (Throw message s) = 0 \<and>
   input (Throw message s) = [] \<and>
   has_error (DeserializeArrays example_host
      (new_deserializer truncated_array_table empty_global)) \<and>
   array_count (DeserializeArrays example_host
      (new_deserializer truncated_array_table empty_global)) = 2"
  by (simp add: DeserializeArrays_def new_deserializer_def truncated_array_table_def
      read_u32_def example_host_def DeserializeArrays_body_def Throw_def base_Throw_def
      has_error_def Let_def)

section \<open>A shape without properties\<close>

lemma replicate_two: "replicate 2 x = [x, x]"
  by (simp add: numeral_2_eq_2)

text \<open>
  C5 (the claim holds of the intent, not of the code). When a shape declares no
  properties, \<open>DeserializeMaps\<close> stores the empty shape and returns instead of going on
  with the next shape. On a shape table of two shapes whose first has no properties, the
  second slot stays unfilled and the bytes of the second record stay unread, with no
  error recorded.
\<close>

theorem C5_empty_shape_ends_the_shape_table:
  "maps_table (DeserializeMaps example_host (DeserializeStrings example_host
      (new_deserializer two_shape_tables empty_global))) = [empty_map, TUndefined] \<and>
   map_count (DeserializeMaps example_host (DeserializeStrings example_host
      (new_deserializer two_shape_tables empty_global))) = 2 \<and>
   input (DeserializeMaps example_host (DeserializeStrings example_host
      (new_deserializer two_shape_tables empty_global))) = second_shape_record \<and>
   \<not> has_error (DeserializeMaps example_host (DeserializeStrings example_host
      (new_deserializer two_shape_tables empty_global)))"
  by (simp add: DeserializeStrings_def new_deserializer_def two_shape_tables_def read_u32_def
      example_host_def Throw_def base_Throw_def Let_def ReadUtf8String_def ReadRawBytes_def
      table_set_def NewFixedArray_def DeserializeMaps_def DeserializeMaps_body_def maps_set_def
      empty_map_def PropertyAttributesType_DEFAULT_def PropertyAttributesType_CUSTOM_def
      second_shape_record_def has_error_def replicate_two)

section \<open>Using a serializer twice\<close>

text \<open>
  C10 (the claim holds of the intent, not of the code). \<open>TakeSnapshot\<close> recognises a used
  serializer by a string table that is not empty. A first call without exports interns
  no string and leaves the serializer as it was, so a second call is not refused: it
  returns true and produces a snapshot again.
\<close>

theorem C10_serializer_reused_after_empty_snapshot:
  "TakeSnapshot I [] (new_serializer h) = Some (True, Some empty_snapshot, new_serializer h) \<and>
   (case TakeSnapshot I [] (new_serializer h) of
      Some (first_result, first_data, s1) \<Rightarrow>
        TakeSnapshot I [] s1 = Some (True, Some empty_snapshot, s1) \<and> \<not> has_error s1
    | None \<Rightarrow> False)"
  by (simp add: TakeSnapshot_def SerializeSource_def WriteSnapshot_def SerializePendingItems_def
      new_serializer_def has_error_def kMagicNumber_def WriteUint32_def empty_snapshot_def)


section \<open>Source compaction\<close>





section \<open>The scenario with two exports\<close>

lemmas serializer_evaluation =
  Let_def new_serializer_def has_error_def kMagicNumber_def WriteUint32_def Discovery_def
  Discovery_loop.simps DiscoverObject_def DiscoverArray_def DiscoverFunction_def DiscoverClass_def
  InsertIntoIndexMap_def heap_at_def fixture_heap_def example_isolate_def fixture_exports_def
  own_property_values_def FastPropertyAt_def SerializeExport_def SerializeString_def
  SerializeObject_def SerializeMap_def SerializeMap_properties_def GetObjectId_def lookup_id_def
  WriteZigZag_def base_Throw_def AttributesToFlags_def GetDefaultAttributeFlags_def
  PropertyAttributesType_DEFAULT_def PropertyAttributesType_CUSTOM_def bf_encode_def
  ReadOnlyBitField_def ConfigurableBitField_def EnumerableBitField_def
  fixture_after_discovery_def fixture_after_exports_def fixture_final_def

lemma index_map_not_full_one: "\<not> (4294967295 \<le> (1 :: u32))"
  by (simp add: word_le_nat_alt)

lemma fixture_discovery:
  "TakeSnapshot_discover example_isolate fixture_exports (new_serializer fixture_heap) =
   Some (True, fixture_after_discovery)"
  by (simp add: serializer_evaluation index_map_not_full_one)

lemma fixture_source: "SerializeSource example_isolate fixture_after_discovery = fixture_after_discovery"
  by (simp add: SerializeSource_def fixture_after_discovery_def new_serializer_def)

lemma fixture_exports_written:
  "TakeSnapshot_exports fixture_exports fixture_after_discovery = fixture_after_exports"
  by (simp add: serializer_evaluation index_map_not_full_one)

lemma fixture_pending: "SerializePendingItems example_isolate fixture_after_exports = fixture_final"
  by (simp add: SerializePendingItems_def serializer_evaluation index_map_not_full_one)

lemma fixture_written:
  "WriteSnapshot example_isolate fixture_after_exports = (Some fixture_snapshot, fixture_final)"
  unfolding WriteSnapshot_def fixture_pending
  by (simp add: serializer_evaluation fixture_snapshot_def)

lemma fixture_TakeSnapshot:
  "TakeSnapshot example_isolate fixture_exports (new_serializer fixture_heap) =
   Some (True, Some fixture_snapshot, fixture_final)"
proof -
  have start: "(new_serializer fixture_heap)\<lparr>contexts_list := [], functions_list := [],
      classes_list := [], arrays_list := [], objects_list := []\<rparr> = new_serializer fixture_heap"
    by (simp add: new_serializer_def)
  have fresh: "\<not> length (string_ids (new_serializer fixture_heap)) > 0"
    by (simp add: new_serializer_def)
  have clean: "\<not> has_error fixture_final"
    by (simp add: serializer_evaluation)
  show ?thesis
    unfolding TakeSnapshot_def
    using fresh clean
    by (simp only: if_False Let_def start fixture_discovery option.case prod.case bool.case
        fixture_source fixture_exports_written fixture_written)
qed

lemma replicate_numeral: "replicate (numeral k) x = x # replicate (pred_numeral k) x"
  by (simp add: numeral_eq_Suc)

lemma list_update_numeral: "(x # xs)[numeral k := v] = x # xs[pred_numeral k := v]"
  by (simp add: numeral_eq_Suc)

lemma DeserializeExports_loop_numeral:
  "DeserializeExports_loop H (numeral k) d s =
   DeserializeExports_loop H (Suc (pred_numeral k)) d s"
  by (simp only: numeral_eq_Suc)

lemma string_id_one_in_range: "\<not> (4 \<le> (1 :: u32))"
  by (simp add: word_le_nat_alt)

lemmas deserializer_evaluation =
  replicate_numeral list_update_numeral DeserializeExports_loop_numeral
  string_id_one_in_range Let_def new_deserializer_def example_host_def empty_global_def has_error_def read_u32_def
  Throw_def base_Throw_def kMagicNumber_def ReadRawBytes_def ReadUtf8String_def
  table_set_def table_get_def NewFixedArray_def allocate_def cell_at_def put_cell_def
  container_set_def ReadString_def
  AddDeferredReference_def ReadValue_def ValueType_of_code_def ReadZigZag_def
  DeserializeMaps_body_def maps_set_def set_prototype_def empty_map_def
  PropertyAttributesType_DEFAULT_def PropertyAttributesType_CUSTOM_def
  DeserializeObjects_body_def objects_set_def
  EnsureCapacity_def dictionary_Add_def dictionary_at_def

lemmas fixture_decoding =
  fixture_snapshot_def fixture_decoding_start_def fixture_decoded_strings_def
  fixture_decoded_shapes_def fixture_decoded_arrays_def fixture_decoded_objects_def
  fixture_decoded_def

lemma fixture_strings:
  "DeserializeStrings example_host fixture_decoding_start = fixture_decoded_strings"
  by (simp add: DeserializeStrings_def deserializer_evaluation fixture_decoding)

lemma fixture_shapes:
  "DeserializeMaps example_host fixture_decoded_strings = fixture_decoded_shapes"
  by (simp add: DeserializeMaps_def deserializer_evaluation fixture_decoding)

lemma fixture_arrays:
  "DeserializeArrays example_host (DeserializeFunctions example_host
     (DeserializeContexts example_host fixture_decoded_shapes)) = fixture_decoded_arrays"
  by (simp add: DeserializeContexts_def DeserializeFunctions_def DeserializeArrays_def
      deserializer_evaluation fixture_decoding)

lemma fixture_objects:
  "DeserializeObjects example_host fixture_decoded_arrays = fixture_decoded_objects"
  by (simp add: DeserializeObjects_def deserializer_evaluation fixture_decoding)

lemma fixture_classes:
  "ProcessDeferredReferences (DeserializeClasses example_host fixture_decoded_objects) =
   fixture_decoded_objects\<lparr>input := drop 84 fixture_snapshot\<rparr>"
  by (simp add: DeserializeClasses_def ProcessDeferredReferences_def deserializer_evaluation fixture_decoding)

lemma fixture_exports_installed:
  "DeserializeExports example_host (fixture_decoded_objects\<lparr>input := drop 84 fixture_snapshot\<rparr>) =
   fixture_decoded"
  by (simp add: DeserializeExports_def deserializer_evaluation fixture_decoding)


lemma fixture_Deserialize:
  "Deserialize example_host (new_deserializer fixture_snapshot empty_global) =
   (True, fixture_decoded)"
proof -
  have magic: "ReadRawBytes 4 (input ((new_deserializer fixture_snapshot empty_global)
      \<lparr>deserialized := True\<rparr>)) = Some (kMagicNumber, drop 4 fixture_snapshot)"
    by (simp add: ReadRawBytes_def new_deserializer_def fixture_snapshot_def kMagicNumber_def)
  have start: "(new_deserializer fixture_snapshot empty_global)
      \<lparr>deserialized := True, deferred_references := [], input := drop 4 fixture_snapshot\<rparr> =
      fixture_decoding_start"
    by (simp add: fixture_decoding_start_def new_deserializer_def)
  have snapshot: "DeserializeSnapshot example_host
      ((new_deserializer fixture_snapshot empty_global)\<lparr>deserialized := True\<rparr>) =
      (True, fixture_decoded)"
    unfolding DeserializeSnapshot_def magic
    by (simp add: start fixture_strings fixture_shapes fixture_arrays fixture_objects
        fixture_classes fixture_exports_installed)
       (simp add: fixture_decoded_def fixture_decoded_objects_def fixture_decoded_arrays_def
        fixture_decoded_shapes_def fixture_decoded_strings_def fixture_decoding_start_def
        new_deserializer_def has_error_def)
  have script: "DeserializeScript example_host fixture_decoded = (True, fixture_decoded)"
    by (simp add: DeserializeScript_def fixture_decoded_def fixture_decoded_objects_def
        fixture_decoded_arrays_def fixture_decoded_shapes_def fixture_decoded_strings_def
        fixture_decoding_start_def new_deserializer_def has_error_def)
  show ?thesis
    unfolding Deserialize_def
    by (simp add: snapshot script) (simp add: new_deserializer_def)
qed

lemma fixture_counts_written:
  "take 4 (drop 4 fixture_snapshot) = WriteUint32 4 \<and>
   take 4 (drop 32 fixture_snapshot) = WriteUint32 1 \<and>
   take 4 (drop 64 fixture_snapshot) = WriteUint32 1"
  by (simp add: fixture_snapshot_def WriteUint32_def)

lemma fixture_final_counts:
  "length (string_ids fixture_final) = 4 \<and> length (map_ids fixture_final) = 1 \<and>
   length (object_ids fixture_final) = 1"
  by (simp add: fixture_final_def fixture_after_exports_def fixture_after_discovery_def
      new_serializer_def)

lemma fixture_decoded_counts:
  "string_count fixture_decoded = 4 \<and> map_count fixture_decoded = 1 \<and>
   object_count fixture_decoded = 1"
  by (simp add: fixture_decoded_def fixture_decoded_objects_def fixture_decoded_arrays_def
      fixture_decoded_shapes_def fixture_decoded_strings_def)

lemma fixture_namespace:
  "global_binding fixture_decoded [0x61] = Some (TSmi 1) \<and>
   global_binding fixture_decoded [0x62] = Some (TRef 3) \<and>
   GetProperty fixture_decoded (TRef 3) [0x78] = Some (TString [0x68, 0x65, 0x6C, 0x6C, 0x6F])"
  by (simp add: global_binding_def GetProperty_def dictionary_at_def cell_at_def
      fixture_decoded_def fixture_decoded_objects_def fixture_decoded_arrays_def
      fixture_decoded_shapes_def fixture_decoded_strings_def fixture_decoding_start_def
      new_deserializer_def)

text \<open>
  C8 (as amended). Encoding the two exports \<open>a = 1\<close> and \<open>b = {x: "hello"}\<close> produces a
  snapshot whose header declares four strings (the export names \<open>a\<close> and \<open>b\<close>, the property
  name \<open>x\<close> and the string \<open>hello\<close>), one shape and one object; decoding that buffer
  succeeds and yields a namespace in which \<open>a\<close> is the integer 1 and \<open>b\<close> is an object
  whose property \<open>x\<close> is the string \<open>hello\<close>.
\<close>

theorem C8_two_export_scenario:
  "TakeSnapshot example_isolate fixture_exports (new_serializer fixture_heap) =
     Some (True, Some fixture_snapshot, fixture_final) \<and>
   length (string_ids fixture_final) = 4 \<and> length (map_ids fixture_final) = 1 \<and>
   length (object_ids fixture_final) = 1 \<and>
   take 4 (drop 4 fixture_snapshot) = WriteUint32 4 \<and>
   take 4 (drop 32 fixture_snapshot) = WriteUint32 1 \<and>
   take 4 (drop 64 fixture_snapshot) = WriteUint32 1 \<and>
   Deserialize example_host (new_deserializer fixture_snapshot empty_global) =
     (True, fixture_decoded) \<and>
   string_count fixture_decoded = 4 \<and> map_count fixture_decoded = 1 \<and>
   object_count fixture_decoded = 1 \<and>
   global_binding fixture_decoded [0x61] = Some (TSmi 1) \<and>
   global_binding fixture_decoded [0x62] = Some (TRef 3) \<and>
   GetProperty fixture_decoded (TRef 3) [0x78] = Some (TString [0x68, 0x65, 0x6C, 0x6C, 0x6F])"
  using fixture_TakeSnapshot fixture_final_counts fixture_counts_written fixture_Deserialize
    fixture_decoded_counts fixture_namespace
  by blast

text \<open>
  The claim as stated fails: the snapshot of the scenario declares four strings, not
  two, and the decoder reads a string count of four.
\<close>

theorem C8_string_count_counterexample:
  "TakeSnapshot example_isolate fixture_exports (new_serializer fixture_heap) =
     Some (True, Some fixture_snapshot, fixture_final) \<and>
   take 4 (drop 4 fixture_snapshot) = WriteUint32 4 \<and>
   WriteUint32 4 \<noteq> WriteUint32 2 \<and>
   string_count (snd (Deserialize example_host
      (new_deserializer fixture_snapshot empty_global))) \<noteq> 2"
proof -
  have "WriteUint32 4 \<noteq> WriteUint32 2" by (simp add: WriteUint32_def)
  moreover have "string_count (snd (Deserialize example_host
      (new_deserializer fixture_snapshot empty_global))) \<noteq> 2"
    using fixture_decoded_counts by (simp add: fixture_Deserialize)
  ultimately show ?thesis using fixture_TakeSnapshot fixture_counts_written by blast
qed



lemma string_id_one_of_two: "\<not> (2 \<le> (1 :: u32))"
  by (simp add: word_le_nat_alt)

lemma malformed_export_tables_read:
  "ProcessDeferredReferences (DeserializeClasses example_host
     (DeserializeObjects example_host
        (DeserializeArrays example_host
           (DeserializeFunctions example_host
              (DeserializeContexts example_host
                 (DeserializeMaps example_host
                    (DeserializeStrings example_host
                       ((new_deserializer (drop 4 malformed_export_snapshot) empty_global)
                          \<lparr>deserialized := True\<rparr>)))))))) = malformed_export_tables"
  by (simp add: DeserializeStrings_def DeserializeMaps_def DeserializeContexts_def
      DeserializeFunctions_def DeserializeArrays_def DeserializeObjects_def
      DeserializeClasses_def ProcessDeferredReferences_def malformed_export_snapshot_def
      malformed_export_tables_def deserializer_evaluation)

lemma malformed_export_installed:
  "DeserializeExports example_host malformed_export_tables = malformed_export_decoded"
  by (simp add: DeserializeExports_def malformed_export_snapshot_def
      malformed_export_tables_def malformed_export_decoded_def string_id_one_of_two
      deserializer_evaluation)

lemma malformed_export_Deserialize:
  "Deserialize example_host (new_deserializer malformed_export_snapshot empty_global) =
   (False, malformed_export_decoded)"
proof -
  have magic: "ReadRawBytes 4 (input ((new_deserializer malformed_export_snapshot empty_global)
      \<lparr>deserialized := True\<rparr>)) = Some (kMagicNumber, drop 4 malformed_export_snapshot)"
    by (simp add: ReadRawBytes_def new_deserializer_def malformed_export_snapshot_def
        kMagicNumber_def)
  have start: "(new_deserializer malformed_export_snapshot empty_global)
      \<lparr>deserialized := True, deferred_references := [],
       input := drop 4 malformed_export_snapshot\<rparr> =
      (new_deserializer (drop 4 malformed_export_snapshot) empty_global)
        \<lparr>deserialized := True\<rparr>"
    by (simp add: new_deserializer_def)
  have snapshot: "DeserializeSnapshot example_host
      ((new_deserializer malformed_export_snapshot empty_global)\<lparr>deserialized := True\<rparr>) =
      (False, malformed_export_decoded)"
    unfolding DeserializeSnapshot_def magic
    by (simp add: start malformed_export_tables_read malformed_export_installed)
       (simp add: malformed_export_decoded_def has_error_def)
  show ?thesis
    unfolding Deserialize_def
    by (simp add: snapshot) (simp add: new_deserializer_def)
qed

text \<open>
  C1 (fails on this input). The global namespace starts empty, with room for eight
  bindings. \<open>Deserialize\<close> of the snapshot whose second export is cut off returns false
  with the error \<open>Malformed variable\<close>, and afterwards the name \<open>a\<close> of the first export is
  bound to the integer 1 in the global namespace: the binding was added before the second
  export was decoded, and the namespace is not what it was before the call.
\<close>

theorem C1_export_visible_after_failed_decode:
  "global_binding (new_deserializer malformed_export_snapshot empty_global) [0x61] = None \<and>
   Deserialize example_host (new_deserializer malformed_export_snapshot empty_global) =
     (False, malformed_export_decoded) \<and>
   error_message malformed_export_decoded = Some ''Malformed variable'' \<and>
   global_binding malformed_export_decoded [0x61] = Some (TSmi 1) \<and>
   dictionary_at malformed_export_decoded (global_dictionary malformed_export_decoded) \<noteq>
     dictionary_at (new_deserializer malformed_export_snapshot empty_global)
       (global_dictionary (new_deserializer malformed_export_snapshot empty_global))"
proof -
  have before: "global_binding (new_deserializer malformed_export_snapshot empty_global) [0x61]
      = None"
    by (simp add: global_binding_def dictionary_at_def new_deserializer_def empty_global_def)
  have message: "error_message malformed_export_decoded = Some ''Malformed variable''"
    by (simp add: malformed_export_decoded_def)
  have after: "global_binding malformed_export_decoded [0x61] = Some (TSmi 1)"
    by (simp add: global_binding_def dictionary_at_def malformed_export_decoded_def
        malformed_export_tables_def new_deserializer_def)
  have changed: "dictionary_at malformed_export_decoded
        (global_dictionary malformed_export_decoded) \<noteq>
      dictionary_at (new_deserializer malformed_export_snapshot empty_global)
        (global_dictionary (new_deserializer malformed_export_snapshot empty_global))"
    by (simp add: dictionary_at_def malformed_export_decoded_def malformed_export_tables_def
        new_deserializer_def empty_global_def)
  show ?thesis
    using before malformed_export_Deserialize message after changed by blast
qed

(*PROOFS_END*)

end
